theory Spec2Isabelle
  imports Main "HOL-Library.Word"
begin

section \<open>Strings of the Go runtime\<close>

text \<open>
  A Go string is a sequence of bytes; \<^typ>\<open>string\<close> (a list of 8-bit characters) is used
  for it, one \<^typ>\<open>char\<close> per byte. A rune (a Unicode code point) is a natural number.
  The functions of this section are the ones of the standard library that
  \<^verbatim>\<open>exporter.go\<close> calls: \<^verbatim>\<open>utf8.AppendRune\<close> (behind
  \<^verbatim>\<open>string(byte)\<close> and \<^verbatim>\<open>Builder.WriteRune\<close>),
  \<^verbatim>\<open>utf8.DecodeRuneInString\<close> (behind \<^verbatim>\<open>range\<close> over a string),
  \<^verbatim>\<open>unicode.IsSpace\<close>, \<^verbatim>\<open>strings.Split\<close>, \<^verbatim>\<open>strings.ReplaceAll\<close>,
  \<^verbatim>\<open>strconv.Atoi\<close> and the verbs \<^verbatim>\<open>%d\<close> and \<^verbatim>\<open>%s\<close> of
  \<^verbatim>\<open>fmt.Sprintf\<close>.
\<close>

type_synonym rune = nat

definition RuneError :: rune where
  "RuneError = 0xFFFD"

definition byte :: "nat \<Rightarrow> char" where
  "byte n = char_of n"

text \<open>\<^verbatim>\<open>utf8.AppendRune\<close>: surrogates and values above U+10FFFF are written as U+FFFD.\<close>

definition EncodeRune :: "rune \<Rightarrow> string" where
  "EncodeRune r =
     (if r < 0x80 then [byte r]
      else if r < 0x800 then [byte (0xC0 + r div 64), byte (0x80 + r mod 64)]
      else if 0x10FFFF < r \<or> (0xD800 \<le> r \<and> r \<le> 0xDFFF) then [byte 0xEF, byte 0xBF, byte 0xBD]
      else if r < 0x10000 then
        [byte (0xE0 + r div 4096), byte (0x80 + (r div 64) mod 64), byte (0x80 + r mod 64)]
      else
        [byte (0xF0 + r div 262144), byte (0x80 + (r div 4096) mod 64),
         byte (0x80 + (r div 64) mod 64), byte (0x80 + r mod 64)])"

text \<open>The continuation-byte test and the range of the second byte that each lead byte accepts.\<close>

definition cont :: "nat \<Rightarrow> bool" where
  "cont b = (0x80 \<le> b \<and> b \<le> 0xBF)"

definition accept2 :: "nat \<Rightarrow> nat \<Rightarrow> bool" where
  "accept2 b0 b1 =
     (if b0 = 0xE0 then 0xA0 \<le> b1 \<and> b1 \<le> 0xBF
      else if b0 = 0xED then 0x80 \<le> b1 \<and> b1 \<le> 0x9F
      else if b0 = 0xF0 then 0x90 \<le> b1 \<and> b1 \<le> 0xBF
      else if b0 = 0xF4 then 0x80 \<le> b1 \<and> b1 \<le> 0x8F
      else cont b1)"

text \<open>
  \<^verbatim>\<open>utf8.DecodeRuneInString\<close>: the first rune of the string and its width in bytes;
  an invalid or truncated encoding is U+FFFD of width 1, the empty string U+FFFD of width 0.
\<close>

definition DecodeRune :: "string \<Rightarrow> rune \<times> nat" where
  "DecodeRune s =
     (case map of_char s of
        [] \<Rightarrow> (RuneError, 0)
      | b0 # bs \<Rightarrow>
          if b0 < 0x80 then (b0, 1)
          else if 0xC2 \<le> b0 \<and> b0 \<le> 0xDF then
            (case bs of
               b1 # _ \<Rightarrow> if cont b1 then ((b0 mod 32) * 64 + b1 mod 64, 2) else (RuneError, 1)
             | _ \<Rightarrow> (RuneError, 1))
          else if 0xE0 \<le> b0 \<and> b0 \<le> 0xEF then
            (case bs of
               b1 # b2 # _ \<Rightarrow>
                 if accept2 b0 b1 \<and> cont b2
                 then ((b0 mod 16) * 4096 + (b1 mod 64) * 64 + b2 mod 64, 3)
                 else (RuneError, 1)
             | _ \<Rightarrow> (RuneError, 1))
          else if 0xF0 \<le> b0 \<and> b0 \<le> 0xF4 then
            (case bs of
               b1 # b2 # b3 # _ \<Rightarrow>
                 if accept2 b0 b1 \<and> cont b2 \<and> cont b3
                 then ((b0 mod 8) * 262144 + (b1 mod 64) * 4096 + (b2 mod 64) * 64 + b3 mod 64, 4)
                 else (RuneError, 1)
             | _ \<Rightarrow> (RuneError, 1))
          else (RuneError, 1))"

text \<open>\<^verbatim>\<open>for _, ch := range s\<close>: the runes of \<open>s\<close>, in order.\<close>

fun runes :: "string \<Rightarrow> rune list" where
  "runes [] = []"
| "runes (c # cs) = fst (DecodeRune (c # cs)) # runes (drop (snd (DecodeRune (c # cs)) - 1) cs)"

text \<open>\<^verbatim>\<open>unicode.IsSpace\<close>: the Latin-1 cases of the switch, then the White_Space table.\<close>

definition IsSpace :: "rune \<Rightarrow> bool" where
  "IsSpace r =
     (if r \<le> 0xFF then r \<in> {0x09, 0x0A, 0x0B, 0x0C, 0x0D, 0x20, 0x85, 0xA0}
      else r = 0x1680 \<or> (0x2000 \<le> r \<and> r \<le> 0x200A) \<or> r = 0x2028 \<or> r = 0x2029
           \<or> r = 0x202F \<or> r = 0x205F \<or> r = 0x3000)"

text \<open>\<^verbatim>\<open>strings.Split(s, sep)\<close> for a separator of one byte.\<close>

fun Split :: "string \<Rightarrow> char \<Rightarrow> string list" where
  "Split [] sep = [[]]"
| "Split (c # cs) sep =
     (if c = sep then [] # Split cs sep
      else (case Split cs sep of w # ws \<Rightarrow> (c # w) # ws | [] \<Rightarrow> [[c]]))"

text \<open>\<^verbatim>\<open>strings.ReplaceAll(s, old, new)\<close> for \<open>old\<close> of one byte.\<close>

definition ReplaceAll :: "string \<Rightarrow> char \<Rightarrow> string \<Rightarrow> string" where
  "ReplaceAll s old new = concat (map (\<lambda>c. if c = old then new else [c]) s)"

text \<open>Decimal digits, as \<^verbatim>\<open>%d\<close> and \<^verbatim>\<open>strconv.FormatInt(i, 10)\<close> print them.\<close>

fun FormatUint :: "nat \<Rightarrow> string" where
  "FormatUint n = (if n < 10 then [byte (48 + n)] else FormatUint (n div 10) @ [byte (48 + n mod 10)])"

definition FormatInt :: "int \<Rightarrow> string" where
  "FormatInt i = (if i < 0 then CHR ''-'' # FormatUint (nat (- i)) else FormatUint (nat i))"

declare FormatUint.simps [simp del]

section \<open>The data model\<close>

text \<open>
  An attribute value of the telemetry data model (\<^verbatim>\<open>pcommon.Value\<close>). \<open>ValueOther s\<close>
  stands for a value of one of the remaining kinds (double, map, slice, bytes) that
  \<^verbatim>\<open>AsString\<close> renders as \<open>s\<close>. \<open>IntVal\<close> is \<^verbatim>\<open>Int()\<close>, which is 0 on every value that is not an integer.
\<close>

datatype pvalue =
  ValueEmpty | ValueStr string | ValueInt "64 word" | ValueBool bool | ValueOther string

fun AsString :: "pvalue \<Rightarrow> string" where
  "AsString ValueEmpty = []"
| "AsString (ValueStr s) = s"
| "AsString (ValueInt i) = FormatInt (sint i)"
| "AsString (ValueBool b) = (if b then ''true'' else ''false'')"
| "AsString (ValueOther s) = s"

fun IntVal :: "pvalue \<Rightarrow> 64 word" where
  "IntVal (ValueInt i) = i"
| "IntVal _ = 0"

text \<open>
  A batch (\<^verbatim>\<open>plog.Logs\<close>) is a list of resource groups, each a list of scope groups, each a
  list of log records. The attributes of a record are a list of key-value pairs;
  \<^verbatim>\<open>Get\<close> returns the value of the first pair with the key.
\<close>

record LogRecord =
  Body :: pvalue
  Attributes :: "(string \<times> pvalue) list"

record ScopeLogs =
  LogRecords :: "LogRecord list"

record ResourceLogs =
  ScopeLogs :: "ScopeLogs list"

type_synonym Logs = "ResourceLogs list"

definition Get :: "(string \<times> pvalue) list \<Rightarrow> string \<Rightarrow> pvalue option" where
  "Get m k = map_of m k"

text \<open>
  \<^verbatim>\<open>RemoveIf(f)\<close> of a slice calls \<open>f\<close> on every element in order and keeps, in order, the
  elements on which \<open>f\<close> is false. \<open>f\<close> may change the element it is given, so it returns
  the element too.
\<close>

fun RemoveIf :: "('a \<Rightarrow> bool \<times> 'a) \<Rightarrow> 'a list \<Rightarrow> 'a list" where
  "RemoveIf f [] = []"
| "RemoveIf f (x # xs) =
     (if fst (f x) then RemoveIf f xs else snd (f x) # RemoveIf f xs)"

text \<open>The record that \<^verbatim>\<open>pushLogs\<close> builds and the workers send (\<^verbatim>\<open>int\<close> has 64 bits).\<close>

record cloudeventdata =
  count :: "64 word"
  message :: string
  name :: string
  namespace :: string
  reason :: string
  startTime :: string
  uid :: string

text \<open>
  The configuration. Its declaration and \<^verbatim>\<open>Validate\<close> are in a file of the package
  that is not at hand; the fields are the ones \<^verbatim>\<open>exporter.go\<close> reads, and
  \<^verbatim>\<open>Validate\<close> is a parameter of \<open>newExporter\<close>.
\<close>

record CeConfig =
  Source :: string
  SpecVersion :: string
  AppendType :: string

record Config =
  Endpoint :: string
  Filter :: string
  Ce :: CeConfig

datatype error = errors_New string

text \<open>The three package-level variables, and their values when the process starts.\<close>

record globals =
  filters :: "string list"
  filterAllowAll :: bool
  typeVersion :: string

definition initial_globals :: globals where
  "initial_globals = \<lparr>filters = [], filterAllowAll = False, typeVersion = []\<rparr>"

definition HEADER_CE_ID :: string where "HEADER_CE_ID = ''Ce-Id''"
definition HEADER_CE_TYPE :: string where "HEADER_CE_TYPE = ''Ce-Type''"
definition HEADER_CE_SOURCE :: string where "HEADER_CE_SOURCE = ''Ce-Source''"
definition HEADER_CE_SPECVERSION :: string where "HEADER_CE_SPECVERSION = ''Ce-Specversion''"
definition HEADER_CONTENT_TYPE :: string where "HEADER_CONTENT_TYPE = ''Content-Type''"
definition HEADER_RETRY_AFTER :: string where "HEADER_RETRY_AFTER = ''Retry-After''"
definition CONTENT_TYPE :: string where "CONTENT_TYPE = ''application/json''"

definition ATTR_EVENT_COUNT :: string where "ATTR_EVENT_COUNT = ''k8s.event.count''"
definition ATTR_EVENT_NAME :: string where "ATTR_EVENT_NAME = ''k8s.event.name''"
definition ATTR_EVENT_NS :: string where "ATTR_EVENT_NS = ''k8s.namespace.name''"
definition ATTR_EVENT_REASON :: string where "ATTR_EVENT_REASON = ''k8s.event.reason''"
definition ATTR_EVENT_START_TIME :: string where "ATTR_EVENT_START_TIME = ''k8s.event.start_time''"
definition ATTR_EVENT_UID :: string where "ATTR_EVENT_UID = ''k8s.event.uid''"

definition CHAN_SZ :: nat where "CHAN_SZ = 2"
definition FETCH_ATTR :: bool where "FETCH_ATTR = True"
definition RETRY_ENABLED :: bool where "RETRY_ENABLED = False"

text \<open>
  The exporter. The logger, the user agent and the telemetry settings are carried along by
  the code and read by no function below, and are left out; the channel \<open>ceChan\<close>, of
  capacity \<open>CHAN_SZ\<close>, is part of the state of the section on the producer and the workers.
\<close>

record cloudeventTransformExporter =
  config :: Config
  source :: string

section \<open>Construction\<close>

text \<open>
  \<^verbatim>\<open>newExporter\<close>. The local \<open>err\<close> is assigned in the branch \<open>filtersLen = 0\<close> and the
  function then returns \<^verbatim>\<open>nil\<close> as its error: \<open>err\<close> is computed here and, as in the
  code, not returned.
\<close>

definition newExporter ::
  "(Config \<Rightarrow> error option) \<Rightarrow> Config \<Rightarrow> globals \<Rightarrow> error + (cloudeventTransformExporter \<times> globals)"
where
  "newExporter Validate conf g =
     (case Validate conf of
        Some err \<Rightarrow> Inl err
      | None \<Rightarrow>
          let g1 = (if length (SpecVersion (Ce conf)) > 0
                    then g\<lparr>typeVersion := ''v'' @ EncodeRune (of_char (hd (SpecVersion (Ce conf))))\<rparr>
                    else g);
              (err, g2) =
                (if length (Filter conf) > 0 then
                   let g' = g1\<lparr>filters := Split (Filter conf) CHR ''|''\<rparr>;
                       filtersLen = length (filters g')
                   in if filtersLen = 0 then
                        (Some (errors_New
                           (''some valid fields should be provided in filters ('*', 'Created|Deleted'), provided: ''
                            @ Filter conf)), g')
                      else if filtersLen = 1 \<and> filters g' ! 0 = ''*'' then
                        (None, g'\<lparr>filterAllowAll := True\<rparr>)
                      else (None, g')
                 else (None :: error option, g1))
          in Inr (\<lparr>config = conf, source = Source (Ce conf)\<rparr>, g2))"

section \<open>Receiving a batch\<close>

text \<open>The loop of the filter over the allowed values.\<close>

fun reasonFound :: "string list \<Rightarrow> string \<Rightarrow> bool" where
  "reasonFound [] s = False"
| "reasonFound (r # rs) s = (if r = s then True else reasonFound rs s)"

text \<open>The three nested closures of the filter pass, innermost first.\<close>

definition removeLogRecord :: "globals \<Rightarrow> LogRecord \<Rightarrow> bool \<times> LogRecord" where
  "removeLogRecord g lr =
     (case Get (Attributes lr) ATTR_EVENT_REASON of
        None \<Rightarrow> (False, lr)
      | Some reasonV \<Rightarrow> (\<not> reasonFound (filters g) (AsString reasonV), lr))"

definition removeScopeLogs :: "globals \<Rightarrow> ScopeLogs \<Rightarrow> bool \<times> ScopeLogs" where
  "removeScopeLogs g sl =
     (let sl' = sl\<lparr>LogRecords := RemoveIf (removeLogRecord g) (LogRecords sl)\<rparr>
      in (length (LogRecords sl') = 0, sl'))"

definition removeResourceLogs :: "globals \<Rightarrow> ResourceLogs \<Rightarrow> bool \<times> ResourceLogs" where
  "removeResourceLogs g rl =
     (let rl' = rl\<lparr>ScopeLogs := RemoveIf (removeScopeLogs g) (ScopeLogs rl)\<rparr>
      in (length (ScopeLogs rl') = 0, rl'))"

definition filterLogs :: "globals \<Rightarrow> Logs \<Rightarrow> Logs" where
  "filterLogs g ld = (if \<not> filterAllowAll g then RemoveIf (removeResourceLogs g) ld else ld)"

text \<open>
  The text that the extraction loop accumulates in \<open>overAllErrStr\<close>: one \<^verbatim>\<open>if\<close> after the
  other, each appending the name of an attribute that \<^verbatim>\<open>Get\<close> did not find.
\<close>

definition overAllErrStr :: "(string \<times> pvalue) list \<Rightarrow> string" where
  "overAllErrStr attrMap =
     (let s0 = [];
          s1 = (if Get attrMap ATTR_EVENT_REASON = None
                then s0 @ ''{'' @ ATTR_EVENT_REASON @ ''} '' else s0);
          s2 = (if Get attrMap ATTR_EVENT_START_TIME = None
                then s1 @ ''{'' @ ATTR_EVENT_START_TIME @ ''} '' else s1);
          s3 = (if Get attrMap ATTR_EVENT_NAME = None
                then s2 @ ''{'' @ ATTR_EVENT_NAME @ ''} '' else s2);
          s4 = (if Get attrMap ATTR_EVENT_UID = None
                then s3 @ ''{'' @ ATTR_EVENT_UID @ ''} '' else s3);
          s5 = (if Get attrMap ATTR_EVENT_NS = None
                then s4 @ ''{'' @ ATTR_EVENT_NS @ ''} '' else s4);
          s6 = (if Get attrMap ATTR_EVENT_COUNT = None
                then s5 @ ''{'' @ ATTR_EVENT_COUNT @ ''} '' else s5)
      in s6)"

text \<open>
  The body of the innermost loop of \<^verbatim>\<open>pushLogs\<close> up to the send: the value assigned to
  \<open>ce\<close>, or the error returned.
\<close>

definition convertRecord :: "LogRecord \<Rightarrow> error + cloudeventdata" where
  "convertRecord lr =
     (let currentMessage = Body lr in
      if FETCH_ATTR then
        let attrMap = Attributes lr;
            eventCount = Get attrMap ATTR_EVENT_COUNT;
            eventName = Get attrMap ATTR_EVENT_NAME;
            eventNs = Get attrMap ATTR_EVENT_NS;
            eventUid = Get attrMap ATTR_EVENT_UID;
            reasonV = Get attrMap ATTR_EVENT_REASON;
            startTimeV = Get attrMap ATTR_EVENT_START_TIME;
            anyError = (\<not> (reasonV \<noteq> None \<and> startTimeV \<noteq> None \<and> eventName \<noteq> None
                            \<and> eventUid \<noteq> None \<and> eventNs \<noteq> None \<and> eventCount \<noteq> None))
        in if anyError then
             Inl (errors_New (''Couldn't find '' @ overAllErrStr attrMap @ ''attributes in the log''))
           else
             Inr \<lparr>count = IntVal (the eventCount),
                  message = AsString currentMessage,
                  name = AsString (the eventName),
                  namespace = AsString (the eventNs),
                  reason = AsString (the reasonV),
                  startTime = AsString (the startTimeV),
                  uid = AsString (the eventUid)\<rparr>
      else
        Inr \<lparr>count = 0,
             message = AsString currentMessage,
             name = ''name'',
             namespace = ''ns'',
             reason = ''TestReason'',
             startTime = [],
             uid = ''fhapohnea-afj-ajfa''\<rparr>)"

text \<open>
  The three conversion loops. \<open>sent\<close> is the sequence of values that \<open>ce\<close> held at each
  send on \<open>ceChan\<close> so far; a send waits while the channel is full, so the loops run to
  their end when the workers keep receiving. The result is the error returned (if any)
  and the sends made before returning.
\<close>

fun pushRecords :: "LogRecord list \<Rightarrow> cloudeventdata list \<Rightarrow> error option \<times> cloudeventdata list" where
  "pushRecords [] sent = (None, sent)"
| "pushRecords (lr # records) sent =
     (case convertRecord lr of
        Inl err \<Rightarrow> (Some err, sent)
      | Inr ce \<Rightarrow> pushRecords records (sent @ [ce]))"

fun pushScopes :: "ScopeLogs list \<Rightarrow> cloudeventdata list \<Rightarrow> error option \<times> cloudeventdata list" where
  "pushScopes [] sent = (None, sent)"
| "pushScopes (sl # scopeLogs) sent =
     (case pushRecords (LogRecords sl) sent of
        (Some err, sent') \<Rightarrow> (Some err, sent')
      | (None, sent') \<Rightarrow> pushScopes scopeLogs sent')"

fun pushResources :: "Logs \<Rightarrow> cloudeventdata list \<Rightarrow> error option \<times> cloudeventdata list" where
  "pushResources [] sent = (None, sent)"
| "pushResources (rl # ld) sent =
     (case pushScopes (ScopeLogs rl) sent of
        (Some err, sent') \<Rightarrow> (Some err, sent')
      | (None, sent') \<Rightarrow> pushResources ld sent')"

definition pushLogs :: "globals \<Rightarrow> Logs \<Rightarrow> error option \<times> cloudeventdata list" where
  "pushLogs g ld = pushResources (filterLogs g ld) []"

text \<open>The log records of a batch in the order in which the conversion loops visit them.\<close>

definition logRecordsOf :: "Logs \<Rightarrow> LogRecord list" where
  "logRecordsOf ld = concat (map (\<lambda>rl. concat (map LogRecords (ScopeLogs rl))) ld)"

text \<open>
  What the filter pass is expected to keep, stated on one record: a record without the
  reason attribute, or one whose reason is among the allowed values.
\<close>

definition keepRecord :: "globals \<Rightarrow> LogRecord \<Rightarrow> bool" where
  "keepRecord g lr =
     (case Get (Attributes lr) ATTR_EVENT_REASON of
        None \<Rightarrow> True
      | Some v \<Rightarrow> AsString v \<in> set (filters g))"

text \<open>
  The names of the required attributes that a record lacks, in the order in which the
  error message lists them.
\<close>

definition missingAttributes :: "LogRecord \<Rightarrow> string list" where
  "missingAttributes lr =
     filter (\<lambda>a. Get (Attributes lr) a = None)
       [ATTR_EVENT_REASON, ATTR_EVENT_START_TIME, ATTR_EVENT_NAME,
        ATTR_EVENT_UID, ATTR_EVENT_NS, ATTR_EVENT_COUNT]"

section \<open>Formatting and parsing numbers\<close>

text \<open>
  \<^verbatim>\<open>fmt.Sprintf\<close> for the two verbs that the code uses, \<^verbatim>\<open>%s\<close> on a string and
  \<^verbatim>\<open>%d\<close> on an integer; every other byte of the format is copied.
\<close>

datatype fmt_arg = ArgS string | ArgD int

fun Sprintf :: "string \<Rightarrow> fmt_arg list \<Rightarrow> string" where
  "Sprintf [] args = []"
| "Sprintf [c] args = [c]"
| "Sprintf (c # v # fmt) args =
     (if c = CHR ''%'' \<and> v = CHR ''s'' then
        (case args of
           ArgS s # args' \<Rightarrow> s @ Sprintf fmt args'
         | _ \<Rightarrow> c # Sprintf (v # fmt) args)
      else if c = CHR ''%'' \<and> v = CHR ''d'' then
        (case args of
           ArgD i # args' \<Rightarrow> FormatInt i @ Sprintf fmt args'
         | _ \<Rightarrow> c # Sprintf (v # fmt) args)
      else c # Sprintf (v # fmt) args)"

text \<open>
  \<^verbatim>\<open>strconv.Atoi\<close> on a platform where \<^verbatim>\<open>int\<close> has 64 bits: an optional sign, then one
  or more decimal digits, and a value in the range of \<^verbatim>\<open>int\<close>; anything else is an error.
\<close>

definition isDigit :: "char \<Rightarrow> bool" where
  "isDigit c = (48 \<le> (of_char c :: nat) \<and> (of_char c :: nat) \<le> 57)"

definition digitsValue :: "string \<Rightarrow> nat" where
  "digitsValue ds = fold (\<lambda>c n. n * 10 + (of_char c - 48)) ds 0"

definition Atoi :: "string \<Rightarrow> int option" where
  "Atoi s =
     (let (neg, ds) =
            (case s of
               [] \<Rightarrow> (False, [])
             | c # cs \<Rightarrow>
                 if c = CHR ''-'' then (True, cs)
                 else if c = CHR ''+'' then (False, cs)
                 else (False, s))
      in if ds = [] \<or> \<not> list_all isDigit ds then None
         else
           let v = (if neg then - int (digitsValue ds) else int (digitsValue ds))
           in if v < - (2 ^ 63) \<or> 2 ^ 63 - 1 < v then None else Some v)"

section \<open>Sending an event\<close>

text \<open>
  \<^verbatim>\<open>configureCeType\<close>. The builder is the string written so far; \<^verbatim>\<open>WriteRune\<close> appends the
  encoding of the rune.
\<close>

definition configureCeType :: "globals \<Rightarrow> string \<Rightarrow> string \<Rightarrow> string" where
  "configureCeType g pretext reasonS =
     fold (\<lambda>ch ret. if \<not> IsSpace ch then ret @ EncodeRune ch else ret) (runes reasonS)
       (pretext @ EncodeRune (of_char CHR ''.'') @ typeVersion g @ EncodeRune (of_char CHR ''.''))"

definition CE_DATA_META_BODY :: string where
  "CE_DATA_META_BODY =
     ''{\"reason\":\"%s\",\"start_time\":\"%s\",\"name\":\"%s\",\"namespace\":\"%s\",\"count\":%d,\"message\":\"%s\"}''"

text \<open>
  The HTTP side. A request is what \<^verbatim>\<open>http.NewRequest\<close> and \<^verbatim>\<open>Header.Add\<close> leave in it;
  a response is its status code and its headers, and \<^verbatim>\<open>Header.Get\<close> returns the first
  value of a key, or the empty string. The client and the validation that
  \<^verbatim>\<open>http.NewRequest\<close> makes of the method and the URL are the environment of the worker.
\<close>

record Request =
  Method :: string
  URL :: string
  Header :: "(string \<times> string) list"
  RequestBody :: string

record Response =
  StatusCode :: int
  ResponseHeader :: "(string \<times> string list) list"

record http =
  NewRequest_error :: "string \<Rightarrow> string \<Rightarrow> error option"
  Do :: "Request \<Rightarrow> error + Response"

definition HeaderGet :: "(string \<times> string list) list \<Rightarrow> string \<Rightarrow> string" where
  "HeaderGet h k = (case map_of h k of Some (v # vs) \<Rightarrow> v | _ \<Rightarrow> [])"

text \<open>
  What a worker leaves behind: the errors passed to \<^verbatim>\<open>e.logger.Error\<close>, in order (the
  text logged is \<^verbatim>\<open>err.Error()\<close>), and the requests given to \<^verbatim>\<open>e.client.Do\<close>, in order.
  \<open>NewThrottleRetry err d\<close> is the error of \<^verbatim>\<open>exporterhelper.NewThrottleRetry\<close> with the
  delay \<open>d\<close>, a \<^verbatim>\<open>time.Duration\<close>: 64 bits, in nanoseconds.
\<close>

datatype logged = Plain error | NewThrottleRetry error "64 word"

record outcome =
  errorsLogged :: "logged list"
  requestsDone :: "Request list"

text \<open>The first part of the loop body of \<^verbatim>\<open>exportMessage\<close>: the body of the request.\<close>

definition json_body :: "cloudeventdata \<Rightarrow> string" where
  "json_body ce =
     (let msg = ReplaceAll (message ce) (CHR 0x22) [CHR 0x5C, CHR 0x22]
      in Sprintf CE_DATA_META_BODY
           [ArgS (reason ce), ArgS (startTime ce), ArgS (name ce), ArgS (namespace ce),
            ArgD (sint (count ce)), ArgS msg])"

text \<open>The request with its five headers, as it is given to the client.\<close>

definition newRequest :: "globals \<Rightarrow> cloudeventTransformExporter \<Rightarrow> cloudeventdata \<Rightarrow> Request" where
  "newRequest g e ce =
     \<lparr>Method = ''POST'', URL = Endpoint (config e),
      Header =
        [(HEADER_CE_ID, uid ce),
         (HEADER_CE_TYPE, configureCeType g (AppendType (Ce (config e))) (reason ce)),
         (HEADER_CE_SOURCE, Source (Ce (config e))),
         (HEADER_CE_SPECVERSION, SpecVersion (Ce (config e))),
         (HEADER_CONTENT_TYPE, CONTENT_TYPE)],
      RequestBody = json_body ce\<rparr>"

text \<open>
  The rest of the loop body, from the response on: what is logged for it. \<open>retry\<close> is the
  constant \<open>RETRY_ENABLED\<close>, a parameter here so that both of its branches can be read.
\<close>

definition handleResponse :: "bool \<Rightarrow> cloudeventTransformExporter \<Rightarrow> Response \<Rightarrow> logged list" where
  "handleResponse retry e res =
     (if StatusCode res \<ge> 200 \<and> StatusCode res \<le> 299 then []
      else
        let formattedErr =
              errors_New (Sprintf ''error exporting items, request to %s responded with HTTP Status Code %d''
                            [ArgS (Endpoint (config e)), ArgD (StatusCode res)])
        in if retry then
             let isThrottleError = (StatusCode res = 429 \<or> StatusCode res = 503);
                 val = HeaderGet (ResponseHeader res) HEADER_RETRY_AFTER;
                 retryAfter =
                   (if isThrottleError \<and> val \<noteq> [] then
                      (case Atoi val of Some seconds \<Rightarrow> seconds | None \<Rightarrow> 0)
                    else 0)
             in [NewThrottleRetry formattedErr (word_of_int retryAfter * 1000000000)]
           else [Plain formattedErr])"

text \<open>One turn of the loop of \<^verbatim>\<open>exportMessage\<close>, for the event received.\<close>

definition exportEvent ::
  "http \<Rightarrow> bool \<Rightarrow> globals \<Rightarrow> cloudeventTransformExporter \<Rightarrow> cloudeventdata \<Rightarrow> outcome"
where
  "exportEvent h retry g e ce =
     (case NewRequest_error h ''POST'' (Endpoint (config e)) of
        Some err \<Rightarrow> \<lparr>errorsLogged = [Plain err], requestsDone = []\<rparr>
      | None \<Rightarrow>
          let req = newRequest g e ce
          in (case Do h req of
                Inl err \<Rightarrow> \<lparr>errorsLogged = [Plain err], requestsDone = [req]\<rparr>
              | Inr res \<Rightarrow> \<lparr>errorsLogged = handleResponse retry e res, requestsDone = [req]\<rparr>))"

text \<open>\<^verbatim>\<open>exportMessage\<close> on the events that one worker receives, in order.\<close>

fun exportMessage ::
  "http \<Rightarrow> globals \<Rightarrow> cloudeventTransformExporter \<Rightarrow> cloudeventdata list \<Rightarrow> outcome"
where
  "exportMessage h g e [] = \<lparr>errorsLogged = [], requestsDone = []\<rparr>"
| "exportMessage h g e (ce # ces) =
     (let o1 = exportEvent h RETRY_ENABLED g e ce; o2 = exportMessage h g e ces
      in \<lparr>errorsLogged = errorsLogged o1 @ errorsLogged o2,
          requestsDone = requestsDone o1 @ requestsDone o2\<rparr>)"

text \<open>
  The package variables are shared by every exporter of the process. \<open>constructions\<close>
  gives the variables after \<^verbatim>\<open>newExporter\<close> has been called on each of the configurations
  in turn; a call that fails (in \<^verbatim>\<open>Validate\<close>) has changed nothing.
\<close>

fun constructions :: "(Config \<Rightarrow> error option) \<Rightarrow> Config list \<Rightarrow> globals \<Rightarrow> globals" where
  "constructions Validate [] g = g"
| "constructions Validate (conf # confs) g =
     (case newExporter Validate conf g of
        Inl err \<Rightarrow> constructions Validate confs g
      | Inr (e, g') \<Rightarrow> constructions Validate confs g')"

section \<open>What the claims speak of\<close>

text \<open>The code points that UTF-8 encodes: up to U+10FFFF, the surrogates apart.\<close>

definition ValidRune :: "rune \<Rightarrow> bool" where
  "ValidRune r = (r < 0xD800 \<or> (0xE000 \<le> r \<and> r \<le> 0x10FFFF))"

text \<open>The UTF-8 text of a sequence of code points.\<close>

definition utf8 :: "rune list \<Rightarrow> string" where
  "utf8 rs = concat (map EncodeRune rs)"

text \<open>
  A string with its whitespace characters removed: where the encoding of a whitespace
  character starts in the string, the bytes of that character are left out; every other
  byte of the string stays as it is, in its place.
\<close>

fun removeWhitespace :: "string \<Rightarrow> string" where
  "removeWhitespace [] = []"
| "removeWhitespace (c # cs) =
     (if IsSpace (fst (DecodeRune (c # cs)))
      then removeWhitespace (drop (snd (DecodeRune (c # cs)) - 1) cs)
      else c # removeWhitespace cs)"

text \<open>
  The exporters constructed so far in a process, as the list of their configurations in
  the order of construction: whether one of them has the wildcard filter, and the values
  of the filter expression that was configured last (an empty expression configures
  nothing).
\<close>

definition wildcardConfigured :: "(Config \<Rightarrow> error option) \<Rightarrow> Config list \<Rightarrow> bool" where
  "wildcardConfigured Validate confs = list_ex (\<lambda>c. Validate c = None \<and> Filter c = ''*'') confs"

definition allowList :: "(Config \<Rightarrow> error option) \<Rightarrow> Config list \<Rightarrow> string list" where
  "allowList Validate confs =
     (let cs = filter (\<lambda>c. Validate c = None \<and> Filter c \<noteq> []) confs
      in if cs = [] then [] else Split (Filter (last cs)) CHR ''|'')"

section \<open>Reading a JSON object\<close>

text \<open>
  What the receiver of a request does with its body: a reader of JSON texts (RFC 8259)
  that are one object whose member values are strings or integers, which is the shape of
  \<open>CE_DATA_META_BODY\<close>. It runs over the bytes of the text once, in the states below.
  The result is the members in order, or \<open>NotJSON\<close> when the text is not a JSON object,
  or \<open>NotRead\<close> when the text goes beyond what is read here (a \<^verbatim>\<open>\u\<close> escape, a
  nested value, a literal name, a fraction or an exponent).
\<close>

datatype json_value = JString string | JNumber int

datatype 'a parsed = Parsed 'a | NotJSON | NotRead

type_synonym members = "(string \<times> json_value) list"

datatype jstate =
    Start
  | FirstKey
  | NextKey members
  | InKey members string
  | KeyEscape members string
  | Colon members string
  | Value members string
  | InString members string string
  | StringEscape members string string
  | InNumber members string string
  | AfterValue members
  | Closed members
  | Fail
  | Unread

definition ws :: "char \<Rightarrow> bool" where
  "ws c = (c = CHR '' '' \<or> c = CHR 0x09 \<or> c = CHR 0x0A \<or> c = CHR 0x0D)"

text \<open>The character that a two-character escape stands for.\<close>

definition unescape :: "char \<Rightarrow> char option" where
  "unescape c =
     (if c = CHR 0x22 then Some (CHR 0x22)
      else if c = CHR 0x5C then Some (CHR 0x5C)
      else if c = CHR ''/'' then Some (CHR ''/'')
      else if c = CHR ''b'' then Some (CHR 0x08)
      else if c = CHR ''f'' then Some (CHR 0x0C)
      else if c = CHR ''n'' then Some (CHR 0x0A)
      else if c = CHR ''r'' then Some (CHR 0x0D)
      else if c = CHR ''t'' then Some (CHR 0x09)
      else None)"

text \<open>An integer as JSON writes it: an optional minus sign, then \<open>0\<close> or digits that do not start with \<open>0\<close>.\<close>

definition jsonInt :: "string \<Rightarrow> int option" where
  "jsonInt s =
     (let (neg, ds) = (case s of c # cs \<Rightarrow> if c = CHR ''-'' then (True, cs) else (False, s)
                               | [] \<Rightarrow> (False, []))
      in if ds = [] \<or> \<not> list_all isDigit ds \<or> (length ds > 1 \<and> hd ds = CHR ''0'') then None
         else Some (if neg then - int (digitsValue ds) else int (digitsValue ds)))"

fun jstep :: "jstate \<Rightarrow> char \<Rightarrow> jstate" where
  "jstep Start c = (if c = CHR ''{'' then FirstKey else if ws c then Start else Fail)"
| "jstep FirstKey c =
     (if c = CHR 0x22 then InKey [] [] else if c = CHR ''}'' then Closed []
      else if ws c then FirstKey else Fail)"
| "jstep (NextKey ms) c =
     (if c = CHR 0x22 then InKey ms [] else if ws c then NextKey ms else Fail)"
| "jstep (InKey ms k) c =
     (if c = CHR 0x22 then Colon ms k
      else if c = CHR 0x5C then KeyEscape ms k
      else if (of_char c :: nat) < 0x20 then Fail
      else InKey ms (k @ [c]))"
| "jstep (KeyEscape ms k) c =
     (case unescape c of
        Some d \<Rightarrow> InKey ms (k @ [d])
      | None \<Rightarrow> if c = CHR ''u'' then Unread else Fail)"
| "jstep (Colon ms k) c =
     (if c = CHR '':'' then Value ms k else if ws c then Colon ms k else Fail)"
| "jstep (Value ms k) c =
     (if c = CHR 0x22 then InString ms k []
      else if c = CHR ''-'' \<or> isDigit c then InNumber ms k [c]
      else if ws c then Value ms k
      else if c = CHR ''{'' \<or> c = CHR ''['' \<or> c = CHR ''t'' \<or> c = CHR ''f'' \<or> c = CHR ''n''
      then Unread
      else Fail)"
| "jstep (InString ms k s) c =
     (if c = CHR 0x22 then AfterValue (ms @ [(k, JString s)])
      else if c = CHR 0x5C then StringEscape ms k s
      else if (of_char c :: nat) < 0x20 then Fail
      else InString ms k (s @ [c]))"
| "jstep (StringEscape ms k s) c =
     (case unescape c of
        Some d \<Rightarrow> InString ms k (s @ [d])
      | None \<Rightarrow> if c = CHR ''u'' then Unread else Fail)"
| "jstep (InNumber ms k ds) c =
     (if isDigit c then InNumber ms k (ds @ [c])
      else if c = CHR ''.'' \<or> c = CHR ''e'' \<or> c = CHR ''E'' then Unread
      else
        (case jsonInt ds of
           None \<Rightarrow> Fail
         | Some i \<Rightarrow>
             if c = CHR '','' then NextKey (ms @ [(k, JNumber i)])
             else if c = CHR ''}'' then Closed (ms @ [(k, JNumber i)])
             else if ws c then AfterValue (ms @ [(k, JNumber i)])
             else Fail))"
| "jstep (AfterValue ms) c =
     (if c = CHR '','' then NextKey ms else if c = CHR ''}'' then Closed ms
      else if ws c then AfterValue ms else Fail)"
| "jstep (Closed ms) c = (if ws c then Closed ms else Fail)"
| "jstep Fail c = Fail"
| "jstep Unread c = Unread"

definition jrun :: "jstate \<Rightarrow> string \<Rightarrow> jstate" where
  "jrun st s = fold (\<lambda>c st. jstep st c) s st"

definition json_object :: "string \<Rightarrow> members parsed" where
  "json_object s =
     (case jrun Start s of
        Closed ms \<Rightarrow> Parsed ms
      | Unread \<Rightarrow> NotRead
      | _ \<Rightarrow> NotJSON)"

section \<open>The producer and the workers, step by step\<close>

text \<open>
  \<^verbatim>\<open>pushLogs\<close> declares one variable \<open>ce\<close>, assigns the record built from each log record
  to it and sends \<^verbatim>\<open>&ce\<close> on \<open>ceChan\<close>: the channel carries pointers, and every pointer
  sent by one call is the address of that one variable. A worker receives a pointer and
  reads the fields of the record through it. The state below has the memory (what each
  address holds), the channel (the pointers sent and not yet received, oldest first),
  the address of \<open>ce\<close>, the log records that the conversion loops have yet to visit, what
  the producer has sent (the address and the value that \<open>ce\<close> held at the send), and what
  each worker has read (the worker, the pointer it received, the value it read through
  it). A step is one turn of the innermost conversion loop, possible while the channel
  has room, or one receive by one of the \<open>CHAN_SZ\<close> workers with the read that follows it.
\<close>

type_synonym addr = nat

record system =
  memory :: "addr \<Rightarrow> cloudeventdata option"
  ceChan :: "addr list"
  ce_addr :: addr
  pending :: "LogRecord list"
  sends :: "(addr \<times> cloudeventdata) list"
  reads :: "(nat \<times> addr \<times> cloudeventdata) list"

text \<open>The zero value of \<^verbatim>\<open>cloudeventdata\<close>, which \<^verbatim>\<open>var ce cloudeventdata\<close> holds at first.\<close>

definition zero_cloudeventdata :: cloudeventdata where
  "zero_cloudeventdata =
     \<lparr>count = 0, message = [], name = [], namespace = [], reason = [], startTime = [], uid = []\<rparr>"

text \<open>The state when \<^verbatim>\<open>pushLogs\<close> enters its conversion loops on the filtered batch.\<close>

definition pushLogs_start :: "globals \<Rightarrow> Logs \<Rightarrow> system" where
  "pushLogs_start g ld =
     \<lparr>memory = (\<lambda>a. None)(0 := Some zero_cloudeventdata), ceChan = [], ce_addr = 0,
      pending = logRecordsOf (filterLogs g ld), sends = [], reads = []\<rparr>"

inductive step :: "system \<Rightarrow> system \<Rightarrow> bool" where
  produce:
    "pending s = lr # rest \<Longrightarrow> convertRecord lr = Inr v \<Longrightarrow> length (ceChan s) < CHAN_SZ \<Longrightarrow>
     step s (s\<lparr>memory := (memory s)(ce_addr s := Some v),
               ceChan := ceChan s @ [ce_addr s],
               pending := rest,
               sends := sends s @ [(ce_addr s, v)]\<rparr>)"
| consume:
    "ceChan s = p # ps \<Longrightarrow> memory s p = Some v \<Longrightarrow> w < CHAN_SZ \<Longrightarrow>
     step s (s\<lparr>ceChan := ps, reads := reads s @ [(w, p, v)]\<rparr>)"

section \<open>Example inputs\<close>

definition example_config :: Config where
  "example_config =
     \<lparr>Endpoint = ''http://sink.local/events'', Filter = ''Created|Deleted'',
      Ce = \<lparr>Source = ''k8s-cluster'', SpecVersion = ''1.0'', AppendType = ''com.example''\<rparr>\<rparr>"

definition example_exporter :: cloudeventTransformExporter where
  "example_exporter = \<lparr>config = example_config, source = ''k8s-cluster''\<rparr>"

definition example_globals :: globals where
  "example_globals = \<lparr>filters = [''Created'', ''Deleted''], filterAllowAll = False, typeVersion = ''v1''\<rparr>"

definition example_record :: "string \<Rightarrow> string \<Rightarrow> LogRecord" where
  "example_record r msg =
     \<lparr>Body = ValueStr msg,
      Attributes =
        [(ATTR_EVENT_COUNT, ValueInt 3), (ATTR_EVENT_NAME, ValueStr ''pod-1''),
         (ATTR_EVENT_NS, ValueStr ''default''), (ATTR_EVENT_UID, ValueStr ''uid-1''),
         (ATTR_EVENT_REASON, ValueStr r), (ATTR_EVENT_START_TIME, ValueStr ''2023-01-01T00:00:00Z'')]\<rparr>"

definition example_no_reason :: LogRecord where
  "example_no_reason =
     \<lparr>Body = ValueStr ''no reason given'',
      Attributes =
        [(ATTR_EVENT_COUNT, ValueInt 1), (ATTR_EVENT_NAME, ValueStr ''pod-2''),
         (ATTR_EVENT_NS, ValueStr ''default''), (ATTR_EVENT_UID, ValueStr ''uid-2''),
         (ATTR_EVENT_START_TIME, ValueStr ''2023-01-01T00:00:00Z'')]\<rparr>"

definition example_missing_two :: LogRecord where
  "example_missing_two =
     \<lparr>Body = ValueStr ''neither name nor reason'',
      Attributes =
        [(ATTR_EVENT_COUNT, ValueInt 1), (ATTR_EVENT_NS, ValueStr ''default''),
         (ATTR_EVENT_UID, ValueStr ''uid-3''),
         (ATTR_EVENT_START_TIME, ValueStr ''2023-01-01T00:00:00Z'')]\<rparr>"

definition example_batch :: "LogRecord list \<Rightarrow> Logs" where
  "example_batch rs = [\<lparr>ScopeLogs = [\<lparr>LogRecords = rs\<rparr>]\<rparr>]"

definition example_event :: cloudeventdata where
  "example_event =
     \<lparr>count = 3, message = ''a'', name = ''pod-1'', namespace = ''default'',
      reason = ''Created'', startTime = ''2023-01-01T00:00:00Z'', uid = ''uid-1''\<rparr>"

text \<open>A sink that accepts every request and answers with the given status and headers.\<close>

definition example_http :: "int \<Rightarrow> (string \<times> string list) list \<Rightarrow> http" where
  "example_http status hdrs =
     \<lparr>NewRequest_error = (\<lambda>m u. None),
      Do = (\<lambda>req. Inr \<lparr>StatusCode = status, ResponseHeader = hdrs\<rparr>)\<rparr>"

text \<open>A reason with a space, a tab and a no-break space (U+00A0, two bytes) in it.\<close>

definition spaced_reason :: string where
  "spaced_reason = ''Failed Mount'' @ [CHR 0x09] @ ''of'' @ [CHR 0xC2, CHR 0xA0] @ ''volume''"

text \<open>The example configuration without a spec-version, and with one that starts with \<open>U+00E9\<close>.\<close>

definition example_config_no_version :: Config where
  "example_config_no_version =
     example_config\<lparr>Ce := \<lparr>Source = ''k8s-cluster'', SpecVersion = [], AppendType = ''com.example''\<rparr>\<rparr>"

definition spaced_runes :: "rune list" where
  "spaced_runes =
     map of_char ''Failed Mount'' @ [0x09] @ map of_char ''of'' @ [0xA0] @ map of_char ''volume''"

text \<open>A reason that is not UTF-8: the byte FF between two letters.\<close>

definition invalid_reason :: string where
  "invalid_reason = ''a'' @ [CHR 0xFF] @ ''b''"

definition example_config_v2 :: Config where
  "example_config_v2 =
     example_config\<lparr>Ce := \<lparr>Source = ''k8s-cluster'', SpecVersion = ''2.0'', AppendType = ''com.example''\<rparr>\<rparr>"

definition example_config_accent :: Config where
  "example_config_accent =
     example_config\<lparr>Ce := \<lparr>Source = ''k8s-cluster'', SpecVersion = [CHR 0xC3, CHR 0xA9, CHR ''1''],
                         AppendType = ''com.example''\<rparr>\<rparr>"

text \<open>An event whose message has quotes in it, and one whose message ends with a backslash.\<close>

definition quoted_event :: cloudeventdata where
  "quoted_event = example_event\<lparr>message := ''say '' @ [CHR 0x22] @ ''hi'' @ [CHR 0x22]\<rparr>"

definition backslash_event :: cloudeventdata where
  "backslash_event = example_event\<lparr>message := ''cannot mount C:'' @ [CHR 0x5C]\<rparr>"

text \<open>The records built from \<open>example_record ''Created'' ''first''\<close> and \<open>example_record ''Deleted'' ''second''\<close>.\<close>

definition first_event :: cloudeventdata where
  "first_event = example_event\<lparr>message := ''first''\<rparr>"

definition second_event :: cloudeventdata where
  "second_event = example_event\<lparr>message := ''second'', reason := ''Deleted''\<rparr>"

text \<open>
  The strings that need no escape in a JSON string, and the ones that need none but for
  their quotes: no backslash, no control character (and no quote).
\<close>

definition plainMessage :: "string \<Rightarrow> bool" where
  "plainMessage s = list_all (\<lambda>c. c \<noteq> CHR 0x5C \<and> \<not> (of_char c :: nat) < 0x20) s"

definition plainString :: "string \<Rightarrow> bool" where
  "plainString s = (plainMessage s \<and> CHR 0x22 \<notin> set s)"

section \<open>Bytes\<close>

lemma byte_eq_iff:
  "(byte n = c) = (n mod 256 = of_char c)"
  "(c = byte n) = (n mod 256 = of_char c)"
proof -
  show "(byte n = c) = (n mod 256 = of_char c)"
    by (simp add: byte_def char_of_eq_iff take_bit_eq_mod)
  then show "(c = byte n) = (n mod 256 = of_char c)"
    by (metis (full_types))
qed

section \<open>The filter pass\<close>

lemma reasonFound_iff: "reasonFound fs s = (s \<in> set fs)"
  by (induction fs) auto

lemma RemoveIf_records: "RemoveIf (removeLogRecord g) rs = filter (keepRecord g) rs"
  by (induction rs)
     (auto simp: removeLogRecord_def keepRecord_def reasonFound_iff split: option.splits)

lemma RemoveIf_scopes:
  "concat (map LogRecords (RemoveIf (removeScopeLogs g) sls))
     = filter (keepRecord g) (concat (map LogRecords sls))"
  by (induction sls) (auto simp: removeScopeLogs_def RemoveIf_records Let_def)

lemma RemoveIf_resources:
  "logRecordsOf (RemoveIf (removeResourceLogs g) ld) = filter (keepRecord g) (logRecordsOf ld)"
proof (induction ld)
  case Nil
  show ?case by (simp add: logRecordsOf_def)
next
  case (Cons rl ld)
  have "concat (map LogRecords (RemoveIf (removeScopeLogs g) (ScopeLogs rl)))
        = filter (keepRecord g) (concat (map LogRecords (ScopeLogs rl)))"
    by (rule RemoveIf_scopes)
  with Cons show ?case
    by (auto simp: removeResourceLogs_def Let_def logRecordsOf_def)
qed

lemma RemoveIf_scopes_nonempty:
  "sl \<in> set (RemoveIf (removeScopeLogs g) sls) \<Longrightarrow> LogRecords sl \<noteq> []"
  by (induction sls) (auto simp: removeScopeLogs_def Let_def split: if_splits)

lemma RemoveIf_resources_nonempty:
  "rl \<in> set (RemoveIf (removeResourceLogs g) ld) \<Longrightarrow>
     ScopeLogs rl \<noteq> [] \<and> (\<forall>sl \<in> set (ScopeLogs rl). LogRecords sl \<noteq> [])"
  by (induction ld)
     (auto simp: removeResourceLogs_def Let_def RemoveIf_scopes_nonempty split: if_splits)

lemma filterLogs_records:
  "\<not> filterAllowAll g \<Longrightarrow>
     logRecordsOf (filterLogs g ld) = filter (keepRecord g) (logRecordsOf ld)"
  by (simp add: filterLogs_def RemoveIf_resources)

section \<open>Construction\<close>

lemma Split_nonempty: "Split s sep \<noteq> []"
  by (induction s) (auto split: list.splits)

lemma Split_single: "Split s sep = [w] \<Longrightarrow> w = s"
  by (induction s arbitrary: w) (auto split: list.splits if_splits simp: Split_nonempty)

lemma newExporter_globals:
  assumes "newExporter Validate conf g0 = Inr (e, g)"
  shows "filterAllowAll g = (filterAllowAll g0 \<or> Filter conf = ''*'')"
    and "filters g = (if Filter conf = [] then filters g0 else Split (Filter conf) CHR ''|'')"
    and "typeVersion g = (if SpecVersion (Ce conf) = [] then typeVersion g0
                          else ''v'' @ EncodeRune (of_char (hd (SpecVersion (Ce conf)))))"
    and "e = \<lparr>config = conf, source = Source (Ce conf)\<rparr>"
  using assms Split_single[of "Filter conf" "CHR ''|''"] Split_nonempty[of "Filter conf" "CHR ''|''"]
  by (auto simp: newExporter_def Let_def length_Suc_conv split: option.splits if_splits)

section \<open>The conversion loops\<close>

lemma pushRecords_append:
  "pushRecords (xs @ ys) sent =
     (case pushRecords xs sent of
        (Some err, sent') \<Rightarrow> (Some err, sent')
      | (None, sent') \<Rightarrow> pushRecords ys sent')"
  by (induction xs arbitrary: sent) (auto split: sum.splits)

lemma pushScopes_flat: "pushScopes sls sent = pushRecords (concat (map LogRecords sls)) sent"
  by (induction sls arbitrary: sent)
     (auto simp: pushRecords_append split: prod.splits option.splits)

lemma pushResources_flat: "pushResources ld sent = pushRecords (logRecordsOf ld) sent"
  by (induction ld arbitrary: sent)
     (auto simp: pushRecords_append pushScopes_flat logRecordsOf_def
           split: prod.splits option.splits)

lemma pushLogs_flat: "pushLogs g ld = pushRecords (logRecordsOf (filterLogs g ld)) []"
  by (simp add: pushLogs_def pushResources_flat)

lemma if_append_right: "(if c then s @ x else s) = s @ (if c then x else [])"
  by simp

lemma concat_filter_Cons:
  "concat (map f (filter P (a # as))) = (if P a then f a else []) @ concat (map f (filter P as))"
  by simp

lemma overAllErrStr_missing:
  "overAllErrStr (Attributes lr) = concat (map (\<lambda>a. ''{'' @ a @ ''} '') (missingAttributes lr))"
  by (simp only: overAllErrStr_def missingAttributes_def Let_def if_append_right
        concat_filter_Cons append_assoc append_Nil append_Nil2 filter.simps(1) list.map(1)
        concat.simps(1))

lemma missing_iff:
  "(missingAttributes lr = []) =
     (Get (Attributes lr) ATTR_EVENT_REASON \<noteq> None
      \<and> Get (Attributes lr) ATTR_EVENT_START_TIME \<noteq> None
      \<and> Get (Attributes lr) ATTR_EVENT_NAME \<noteq> None
      \<and> Get (Attributes lr) ATTR_EVENT_UID \<noteq> None
      \<and> Get (Attributes lr) ATTR_EVENT_NS \<noteq> None
      \<and> Get (Attributes lr) ATTR_EVENT_COUNT \<noteq> None)"
  by (simp add: missingAttributes_def filter_empty_conv)

lemma convertRecord_complete:
  "missingAttributes lr = [] \<Longrightarrow> \<exists>ce. convertRecord lr = Inr ce"
  by (simp add: missing_iff convertRecord_def Let_def FETCH_ATTR_def)

lemma convertRecord_missing:
  "missingAttributes lr \<noteq> [] \<Longrightarrow>
   convertRecord lr =
     Inl (errors_New (''Couldn't find ''
                      @ concat (map (\<lambda>a. ''{'' @ a @ ''} '') (missingAttributes lr))
                      @ ''attributes in the log''))"
  unfolding missing_iff overAllErrStr_missing[symmetric]
  by (simp add: convertRecord_def Let_def FETCH_ATTR_def)

lemma pushRecords_complete:
  "\<forall>r \<in> set rs. missingAttributes r = [] \<Longrightarrow>
   pushRecords rs sent = (None, sent @ map (\<lambda>r. projr (convertRecord r)) rs)"
proof (induction rs arbitrary: sent)
  case Nil
  show ?case by simp
next
  case (Cons r rs)
  then obtain ce where "convertRecord r = Inr ce"
    using convertRecord_complete[of r] by auto
  with Cons show ?case by simp
qed

lemma pushRecords_first_missing:
  assumes "\<forall>r \<in> set pre. missingAttributes r = []" and "missingAttributes lr \<noteq> []"
  shows "pushRecords (pre @ lr # post) sent =
           (Some (errors_New (''Couldn't find ''
                              @ concat (map (\<lambda>a. ''{'' @ a @ ''} '') (missingAttributes lr))
                              @ ''attributes in the log'')),
            sent @ map (\<lambda>r. projr (convertRecord r)) pre)"
  by (simp add: pushRecords_append pushRecords_complete[OF assms(1)]
        convertRecord_missing[OF assms(2)])

lemma first_missing_split:
  assumes "\<exists>r \<in> set rs. missingAttributes r \<noteq> []"
  shows "\<exists>pre lr post. rs = pre @ lr # post \<and> (\<forall>r \<in> set pre. missingAttributes r = [])
            \<and> missingAttributes lr \<noteq> []"
proof -
  from assms obtain pre lr post where "rs = pre @ lr # post" "missingAttributes lr \<noteq> []"
      "\<forall>r \<in> set pre. \<not> missingAttributes r \<noteq> []"
    using split_list_first_prop[of rs "\<lambda>r. missingAttributes r \<noteq> []"] by blast
  then show ?thesis by auto
qed

lemma example_attrs [simp]:
  "Get (Attributes (example_record r m)) ATTR_EVENT_REASON = Some (ValueStr r)"
  "Get (Attributes example_no_reason) ATTR_EVENT_REASON = None"
  "missingAttributes (example_record r m) = []"
  "missingAttributes example_no_reason = [ATTR_EVENT_REASON]"
  by (simp_all add: example_record_def example_no_reason_def missingAttributes_def Get_def
        ATTR_EVENT_COUNT_def ATTR_EVENT_NAME_def ATTR_EVENT_NS_def ATTR_EVENT_REASON_def
        ATTR_EVENT_START_TIME_def ATTR_EVENT_UID_def)

lemma example_missing_two_attrs [simp]:
  "missingAttributes example_missing_two = [ATTR_EVENT_REASON, ATTR_EVENT_NAME]"
  "keepRecord example_globals example_missing_two"
  by (simp_all add: example_missing_two_def missingAttributes_def keepRecord_def Get_def
        ATTR_EVENT_COUNT_def ATTR_EVENT_NAME_def ATTR_EVENT_NS_def ATTR_EVENT_REASON_def
        ATTR_EVENT_START_TIME_def ATTR_EVENT_UID_def)

lemma example_batch_records [simp]: "logRecordsOf (example_batch rs) = rs"
  by (simp add: example_batch_def logRecordsOf_def)

lemma example_keep [simp]:
  "keepRecord example_globals (example_record r m) = (r = ''Created'' \<or> r = ''Deleted'')"
  "keepRecord example_globals example_no_reason"
  by (auto simp: keepRecord_def example_globals_def)

lemma example_not_allow_all [simp]: "\<not> filterAllowAll example_globals"
  by (simp add: example_globals_def)

section \<open>The worker\<close>

lemma Sprintf_formattedErr:
  "Sprintf ''error exporting items, request to %s responded with HTTP Status Code %d''
      [ArgS ep, ArgD st]
   = ''error exporting items, request to '' @ ep @ '' responded with HTTP Status Code '' @ FormatInt st"
  by simp

lemma Sprintf_body:
  "Sprintf CE_DATA_META_BODY [ArgS r, ArgS st, ArgS n, ArgS ns, ArgD c, ArgS m]
   = ''{\"reason\":\"'' @ r @ ''\",\"start_time\":\"'' @ st @ ''\",\"name\":\"'' @ n
     @ ''\",\"namespace\":\"'' @ ns @ ''\",\"count\":'' @ FormatInt c @ '',\"message\":\"'' @ m @ ''\"}''"
  by (simp add: CE_DATA_META_BODY_def)

lemma FormatInt_503: "FormatInt 503 = ''503''"
  by (simp add: FormatInt_def FormatUint.simps byte_eq_iff)

text \<open>
  With the constant \<open>RETRY_ENABLED\<close> as it is, every error that the worker logs is a plain
  one: the branch that builds a retry signal is never taken.
\<close>

lemma exportEvent_logs_plain:
  "l \<in> set (errorsLogged (exportEvent h RETRY_ENABLED g e ce)) \<Longrightarrow> \<exists>err. l = Plain err"
  by (auto simp: exportEvent_def handleResponse_def RETRY_ENABLED_def Let_def
           split: option.splits sum.splits if_splits)

lemma exportMessage_logs_plain:
  "l \<in> set (errorsLogged (exportMessage h g e ces)) \<Longrightarrow> \<exists>err. l = Plain err"
  by (induction ces) (auto simp: Let_def dest: exportEvent_logs_plain)

section \<open>Runes\<close>

lemma of_char_byte: "n < 256 \<Longrightarrow> of_char (byte n) = n"
  by (simp add: byte_def)

lemma fold_builder:
  "fold (\<lambda>ch ret. if \<not> IsSpace ch then ret @ EncodeRune ch else ret) rs acc
     = acc @ concat (map EncodeRune (filter (\<lambda>r. \<not> IsSpace r) rs))"
  by (induction rs arbitrary: acc) auto

lemma EncodeRune_ascii: "of_char c < (0x80 :: nat) \<Longrightarrow> EncodeRune (of_char c) = [c]"
  by (simp add: EncodeRune_def byte_def)

lemma configureCeType_eq:
  "configureCeType g pretext s =
     pretext @ ''.'' @ typeVersion g @ ''.''
       @ concat (map EncodeRune (filter (\<lambda>r. \<not> IsSpace r) (runes s)))"
  by (simp add: configureCeType_def fold_builder EncodeRune_def byte_eq_iff)

lemma DecodeRune_1:
  assumes "r < 0x80"
  shows "DecodeRune (EncodeRune r @ s) = (r, 1)"
  using assms by (simp add: EncodeRune_def DecodeRune_def of_char_byte)

lemma mod_add_multiple: "(q::nat) < k \<Longrightarrow> (k * c + q) mod k = q"
  by simp

lemma modadd: "(q::nat) < 32 \<Longrightarrow> (192 + q) mod 32 = q"
  using mod_add_multiple[of q 32 6] by simp

lemma modadd2: "(m::nat) < 64 \<Longrightarrow> (128 + m) mod 64 = m"
  using mod_add_multiple[of m 64 2] by simp

lemma DecodeRune_2:
  assumes "0x80 \<le> r" "r < 0x800"
  shows "DecodeRune (EncodeRune r @ s) = (r, 2)"
proof -
  define q where "q = r div 64"
  define m where "m = r mod 64"
  have r: "r = q * 64 + m" by (simp add: q_def m_def)
  have q: "2 \<le> q" "q < 32" using assms by (auto simp: q_def)
  have m: "m < 64" by (simp add: m_def)
  have e: "EncodeRune r = [byte (192 + q), byte (128 + m)]"
    using assms by (simp add: EncodeRune_def q_def m_def)
  have o: "of_char (byte (192 + q)) = 192 + q" "of_char (byte (128 + m)) = 128 + m"
    using q m by (simp_all add: of_char_byte)
  show ?thesis
    unfolding e using q m o modadd[of q] modadd2[of m]
    by (simp add: DecodeRune_def cont_def r)
qed

lemma modadd3: "(a::nat) < 16 \<Longrightarrow> (224 + a) mod 16 = a"
  using mod_add_multiple[of a 16 14] by simp

lemma modadd4: "(a::nat) < 8 \<Longrightarrow> (240 + a) mod 8 = a"
  using mod_add_multiple[of a 8 30] by simp

lemma DecodeRune_3:
  assumes "0x800 \<le> r" "r < 0x10000" "ValidRune r"
  shows "DecodeRune (EncodeRune r @ s) = (r, 3)"
proof -
  define t where "t = r div 64"
  define c where "c = r mod 64"
  define a where "a = t div 64"
  define b where "b = t mod 64"
  have r: "r = t * 64 + c" by (simp add: t_def c_def)
  have t: "t = a * 64 + b" by (simp add: a_def b_def)
  have ra: "r div 4096 = a"
    using div_mult2_eq[of r 64 64] by (simp add: a_def t_def)
  have bc: "b < 64" "c < 64" by (simp_all add: b_def c_def)
  have tr: "32 \<le> t" "t < 1024" using assms(1,2) by (auto simp: t_def)
  have a: "a < 16" using tr by (auto simp: a_def)
  have sur: "t < 864 \<or> 896 \<le> t"
    using assms(3) by (auto simp: ValidRune_def t_def)
  have nsur: "(0xD800 \<le> r \<and> r \<le> 0xDFFF) = False" "(0x10FFFF < r) = False"
      "(r < 0x80) = False" "(r < 0x800) = False"
    using assms by (auto simp: ValidRune_def)
  have e: "EncodeRune r = [byte (224 + a), byte (128 + b), byte (128 + c)]"
    using assms(2) by (simp add: EncodeRune_def nsur ra) (simp add: t_def b_def c_def)
  have o: "of_char (byte (224 + a)) = 224 + a" "of_char (byte (128 + b)) = 128 + b"
      "of_char (byte (128 + c)) = 128 + c"
    using a bc by (simp_all add: of_char_byte)
  have acc: "accept2 (224 + a) (128 + b)"
  proof -
    have "a = 0 \<Longrightarrow> 32 \<le> b" using t tr by simp
    moreover have "a = 13 \<Longrightarrow> b < 32" using t sur bc by auto
    ultimately show ?thesis using bc a by (auto simp: accept2_def cont_def)
  qed
  have val: "a * 4096 + b * 64 + c = r" by (simp add: r t)
  show ?thesis
    unfolding e using a bc o acc modadd3[of a] modadd2[of b] modadd2[of c] val
    by (simp add: DecodeRune_def cont_def)
qed

lemma DecodeRune_4:
  assumes "0x10000 \<le> r" "r \<le> 0x10FFFF"
  shows "DecodeRune (EncodeRune r @ s) = (r, 4)"
proof -
  define t where "t = r div 64"
  define d where "d = r mod 64"
  define u where "u = t div 64"
  define c where "c = t mod 64"
  define a where "a = u div 64"
  define b where "b = u mod 64"
  have r: "r = t * 64 + d" by (simp add: t_def d_def)
  have t: "t = u * 64 + c" by (simp add: u_def c_def)
  have u: "u = a * 64 + b" by (simp add: a_def b_def)
  have ru: "r div 4096 = u"
    using div_mult2_eq[of r 64 64] by (simp add: u_def t_def)
  have ra: "r div 262144 = a"
    using div_mult2_eq[of r 4096 64] by (simp add: ru a_def)
  have bcd: "b < 64" "c < 64" "d < 64" by (simp_all add: b_def c_def d_def)
  have ur: "16 \<le> u" "u < 272" using assms unfolding ru[symmetric] by auto
  have a: "a < 5" using ur by (auto simp: a_def)
  have nsur: "(0xD800 \<le> r \<and> r \<le> 0xDFFF) = False" "(0x10FFFF < r) = False"
      "(r < 0x80) = False" "(r < 0x800) = False" "(r < 0x10000) = False"
    using assms by auto
  have e: "EncodeRune r = [byte (240 + a), byte (128 + b), byte (128 + c), byte (128 + d)]"
    by (simp add: EncodeRune_def nsur ra ru) (simp add: t_def u_def b_def c_def d_def)
  have o: "of_char (byte (240 + a)) = 240 + a" "of_char (byte (128 + b)) = 128 + b"
      "of_char (byte (128 + c)) = 128 + c" "of_char (byte (128 + d)) = 128 + d"
    using a bcd by (simp_all add: of_char_byte)
  have acc: "accept2 (240 + a) (128 + b)"
  proof -
    have "a = 0 \<Longrightarrow> 16 \<le> b" using u ur by simp
    moreover have "a = 4 \<Longrightarrow> b < 16" using u ur by simp
    ultimately show ?thesis using bcd a by (auto simp: accept2_def cont_def)
  qed
  have val: "a * 262144 + b * 4096 + c * 64 + d = r" by (simp add: r t u)
  show ?thesis
    unfolding e using a bcd o acc modadd4[of a] modadd2[of b] modadd2[of c] modadd2[of d] val
    by (simp add: DecodeRune_def cont_def)
qed

lemma DecodeRune_EncodeRune:
  assumes "ValidRune r"
  shows "DecodeRune (EncodeRune r @ s) = (r, length (EncodeRune r))" and "EncodeRune r \<noteq> []"
proof -
  have "r < 0x80 \<or> (0x80 \<le> r \<and> r < 0x800) \<or> (0x800 \<le> r \<and> r < 0x10000)
          \<or> (0x10000 \<le> r \<and> r \<le> 0x10FFFF)"
    using assms unfolding ValidRune_def by linarith
  then consider "r < 0x80" | "0x80 \<le> r" "r < 0x800" | "0x800 \<le> r" "r < 0x10000"
    | "0x10000 \<le> r" "r \<le> 0x10FFFF"
    by blast
  then have "DecodeRune (EncodeRune r @ s) = (r, length (EncodeRune r)) \<and> EncodeRune r \<noteq> []"
  proof cases
    case 1
    then show ?thesis using DecodeRune_1[of r s] by (simp add: EncodeRune_def)
  next
    case 2
    then show ?thesis using DecodeRune_2[of r s] by (simp add: EncodeRune_def)
  next
    case 3
    with assms have "(0xD800 \<le> r \<and> r \<le> 0xDFFF) = False" "(0x10FFFF < r) = False"
      "(r < 0x80) = False" "(r < 0x800) = False"
      by (auto simp: ValidRune_def)
    with 3 show ?thesis using DecodeRune_3[of r s] assms by (simp add: EncodeRune_def)
  next
    case 4
    then have "(0xD800 \<le> r \<and> r \<le> 0xDFFF) = False" "(0x10FFFF < r) = False"
      "(r < 0x80) = False" "(r < 0x800) = False" "(r < 0x10000) = False"
      by auto
    with 4 show ?thesis using DecodeRune_4[of r s] by (simp add: EncodeRune_def)
  qed
  then show "DecodeRune (EncodeRune r @ s) = (r, length (EncodeRune r))" and "EncodeRune r \<noteq> []"
    by simp_all
qed

lemma runes_EncodeRune:
  assumes "ValidRune r"
  shows "runes (EncodeRune r @ s) = r # runes s"
proof -
  from DecodeRune_EncodeRune(2)[OF assms] obtain c cs where e: "EncodeRune r = c # cs"
    by (cases "EncodeRune r") auto
  have d: "DecodeRune (c # cs @ s) = (r, Suc (length cs))"
    using DecodeRune_EncodeRune(1)[OF assms, of s] by (simp add: e)
  show ?thesis
    by (simp add: e d)
qed

lemma runes_utf8:
  "\<forall>r \<in> set rs. ValidRune r \<Longrightarrow> runes (concat (map EncodeRune rs)) = rs"
  by (induction rs) (simp_all add: runes_EncodeRune)

lemma runes_ascii:
  "\<forall>c \<in> set s. of_char c < (0x80 :: nat) \<Longrightarrow> runes s = map of_char s"
  by (induction s) (simp_all add: DecodeRune_def)

lemma encode_filter_ascii:
  "\<forall>c \<in> set s. of_char c < (0x80 :: nat) \<Longrightarrow>
     concat (map EncodeRune (filter (\<lambda>r. \<not> IsSpace r) (map of_char s)))
       = filter (\<lambda>c. \<not> IsSpace (of_char c)) s"
  by (induction s) (simp_all add: EncodeRune_ascii)

lemma newExporter_Inl_iff:
  "(newExporter Validate conf g = Inl err) = (Validate conf = Some err)"
  by (auto simp: newExporter_def Let_def split: option.splits prod.splits)

lemma ce_type_of_request:
  "map_of (Header (newRequest g e ce)) HEADER_CE_TYPE
     = Some (AppendType (Ce (config e)) @ ''.'' @ typeVersion g @ ''.''
             @ concat (map EncodeRune (filter (\<lambda>r. \<not> IsSpace r) (runes (reason ce)))))"
  by (simp add: newRequest_def configureCeType_eq HEADER_CE_ID_def HEADER_CE_TYPE_def)

text \<open>Whitespace removed from UTF-8 text, and the package variables after several constructions.\<close>

lemma cont_byte: "cont (of_char (byte (128 + k mod 64)))"
proof -
  have "k mod 64 < 64" by simp
  then have "128 + k mod 64 < 256" by linarith
  then show ?thesis by (simp add: of_char_byte cont_def)
qed

lemma EncodeRune_shape: "\<exists>c cs. EncodeRune r = c # cs \<and> (\<forall>x \<in> set cs. cont (of_char x))"
proof -
  have "cont (of_char (byte 0xBF))" "cont (of_char (byte 0xBD))"
    by (simp_all add: of_char_byte cont_def)
  then show ?thesis
    using cont_byte[of r] cont_byte[of "r div 64"] cont_byte[of "r div 4096"]
    by (simp add: EncodeRune_def)
qed

lemma DecodeRune_cont: "cont (of_char c) \<Longrightarrow> DecodeRune (c # s) = (RuneError, 1)"
  by (simp add: DecodeRune_def cont_def)

lemma not_IsSpace_RuneError: "\<not> IsSpace RuneError"
  by (simp add: IsSpace_def RuneError_def)

lemma removeWhitespace_conts:
  "\<forall>x \<in> set cs. cont (of_char x) \<Longrightarrow> removeWhitespace (cs @ s) = cs @ removeWhitespace s"
  by (induction cs) (simp_all add: DecodeRune_cont not_IsSpace_RuneError)

lemma removeWhitespace_EncodeRune:
  assumes "ValidRune r"
  shows "removeWhitespace (EncodeRune r @ s)
           = (if IsSpace r then removeWhitespace s else EncodeRune r @ removeWhitespace s)"
proof -
  obtain c cs where e: "EncodeRune r = c # cs" and k: "\<forall>x \<in> set cs. cont (of_char x)"
    using EncodeRune_shape[of r] by blast
  have d: "DecodeRune (c # cs @ s) = (r, Suc (length cs))"
    using DecodeRune_EncodeRune(1)[OF assms, of s] by (simp add: e)
  show ?thesis
    by (simp add: e d removeWhitespace_conts[OF k])
qed

lemma removeWhitespace_utf8:
  "\<forall>r \<in> set rs. ValidRune r \<Longrightarrow>
     removeWhitespace (utf8 rs) = utf8 (filter (\<lambda>r. \<not> IsSpace r) rs)"
  by (induction rs) (simp_all add: utf8_def removeWhitespace_EncodeRune)

lemma rebuilt_utf8:
  "\<forall>r \<in> set rs. ValidRune r \<Longrightarrow>
     concat (map EncodeRune (filter (\<lambda>r. \<not> IsSpace r) (runes (utf8 rs))))
       = removeWhitespace (utf8 rs)"
  by (simp add: removeWhitespace_utf8) (simp add: utf8_def runes_utf8)

lemma ce_type_utf8:
  assumes "reason ce = utf8 rs" and "\<forall>r \<in> set rs. ValidRune r"
  shows "map_of (Header (newRequest g e ce)) HEADER_CE_TYPE
     = Some (AppendType (Ce (config e)) @ ''.'' @ typeVersion g @ ''.'' @ removeWhitespace (reason ce))"
  using rebuilt_utf8[OF assms(2)] by (simp add: ce_type_of_request assms(1))

lemma constructions_append:
  "constructions V (xs @ ys) g = constructions V ys (constructions V xs g)"
  by (induction xs arbitrary: g) (auto split: sum.splits)

lemma newExporter_cases:
  "(Validate conf \<noteq> None \<and> (\<exists>err. newExporter Validate conf g = Inl err))
   \<or> (Validate conf = None \<and> (\<exists>e g'. newExporter Validate conf g = Inr (e, g')))"
proof (cases "newExporter Validate conf g")
  case (Inl err)
  then show ?thesis by (auto simp: newExporter_Inl_iff)
next
  case (Inr p)
  then have "Validate conf = None"
    using newExporter_Inl_iff[of Validate conf g] by (cases "Validate conf") auto
  with Inr show ?thesis by (cases p) auto
qed

lemma constructions_typeVersion_kept:
  "\<forall>k \<in> set confs. SpecVersion (Ce k) = [] \<Longrightarrow>
     typeVersion (constructions V confs g) = typeVersion g"
proof (induction confs arbitrary: g)
  case Nil
  show ?case by simp
next
  case (Cons c confs)
  show ?case
  proof (cases "newExporter V c g")
    case (Inl err)
    with Cons show ?thesis by simp
  next
    case (Inr p)
    obtain e g' where p: "p = (e, g')" by (cases p)
    have "typeVersion g' = typeVersion g"
      using newExporter_globals(3)[of V c g e g'] Inr p Cons.prems by simp
    with Cons Inr p show ?thesis by simp
  qed
qed

lemma constructions_filterAllowAll:
  "filterAllowAll (constructions V confs g) = (filterAllowAll g \<or> wildcardConfigured V confs)"
proof (induction confs arbitrary: g)
  case Nil
  show ?case by (simp add: wildcardConfigured_def)
next
  case (Cons c confs)
  show ?case
  proof (cases "newExporter V c g")
    case (Inl err)
    then have nv: "(V c = None) = False" by (simp add: newExporter_Inl_iff)
    from Cons Inl show ?thesis by (simp add: wildcardConfigured_def nv)
  next
    case (Inr p)
    obtain e g' where p: "p = (e, g')" by (cases p)
    have v: "V c = None" using newExporter_cases[of V c g] Inr by auto
    have "filterAllowAll g' = (filterAllowAll g \<or> Filter c = ''*'')"
      using newExporter_globals(1)[of V c g e g'] Inr p by simp
    with Cons Inr p v show ?thesis by (auto simp: wildcardConfigured_def)
  qed
qed

lemma constructions_filters:
  "filters (constructions V confs g) =
     (let cs = filter (\<lambda>c. V c = None \<and> Filter c \<noteq> []) confs
      in if cs = [] then filters g else Split (Filter (last cs)) CHR ''|'')"
proof (induction confs arbitrary: g)
  case Nil
  show ?case by simp
next
  case (Cons c confs)
  show ?case
  proof (cases "newExporter V c g")
    case (Inl err)
    then have nv: "(V c = None) = False" by (simp add: newExporter_Inl_iff)
    from Cons Inl show ?thesis by (simp add: Let_def nv)
  next
    case (Inr p)
    obtain e g' where p: "p = (e, g')" by (cases p)
    have v: "V c = None" using newExporter_cases[of V c g] Inr by auto
    have "filters g' = (if Filter c = [] then filters g else Split (Filter c) CHR ''|'')"
      using newExporter_globals(2)[of V c g e g'] Inr p by simp
    with Cons Inr p v show ?thesis by (simp add: Let_def)
  qed
qed

lemma removeWhitespace_spaced_reason: "removeWhitespace spaced_reason = ''FailedMountofvolume''"
  by (simp add: spaced_reason_def DecodeRune_def IsSpace_def cont_def)

lemma rebuilt_Created:
  "concat (map EncodeRune (filter (\<lambda>r. \<not> IsSpace r) (runes ''Created''))) = ''Created''"
  by (simp add: DecodeRune_def IsSpace_def EncodeRune_def byte_eq_iff)

lemma header_Created:
  "reason ce = ''Created'' \<Longrightarrow>
   map_of (Header (newRequest g e ce)) HEADER_CE_TYPE
     = Some (AppendType (Ce (config e)) @ ''.'' @ typeVersion g @ ''.Created'')"
  by (simp only: ce_type_of_request rebuilt_Created) simp

lemma reason_example_event: "reason example_event = ''Created''"
  by (simp add: example_event_def)

lemma removeWhitespace_Created: "removeWhitespace ''Created'' = ''Created''"
  by (simp add: DecodeRune_def IsSpace_def)

section \<open>The body of a request\<close>

lemma FormatInt_3: "FormatInt 3 = ''3''"
  by (simp add: FormatInt_def FormatUint.simps byte_eq_iff)

lemma body_quoted:
  "json_body quoted_event =
     ''{\"reason\":\"Created\",\"start_time\":\"2023-01-01T00:00:00Z\",\"name\":\"pod-1\",\"namespace\":\"default\",\"count\":3,\"message\":\"say ''
     @ [CHR 0x5C, CHR 0x22] @ ''hi'' @ [CHR 0x5C, CHR 0x22] @ ''\"}''"
  by (simp add: json_body_def quoted_event_def example_event_def Sprintf_body ReplaceAll_def FormatInt_3)

lemma body_backslash:
  "json_body backslash_event =
     ''{\"reason\":\"Created\",\"start_time\":\"2023-01-01T00:00:00Z\",\"name\":\"pod-1\",\"namespace\":\"default\",\"count\":3,\"message\":\"cannot mount C:''
     @ [CHR 0x5C] @ ''\"}''"
  by (simp add: json_body_def backslash_event_def example_event_def Sprintf_body ReplaceAll_def FormatInt_3)

lemma read_quoted:
  "json_object (json_body quoted_event) =
     Parsed [(''reason'', JString ''Created''), (''start_time'', JString ''2023-01-01T00:00:00Z''),
             (''name'', JString ''pod-1''), (''namespace'', JString ''default''),
             (''count'', JNumber 3), (''message'', JString (''say '' @ [CHR 0x22] @ ''hi'' @ [CHR 0x22]))]"
  by (simp add: body_quoted json_object_def jrun_def ws_def unescape_def jsonInt_def isDigit_def
        digitsValue_def)

lemma read_backslash:
  "json_object (json_body backslash_event) = NotJSON"
  by (simp add: body_backslash json_object_def jrun_def ws_def unescape_def jsonInt_def isDigit_def
        digitsValue_def)

text \<open>The body of a record with plain strings reads back as the six fields of the record.\<close>

lemma jrun_Nil: "jrun st [] = st"
  by (simp add: jrun_def)

lemma jrun_Cons: "jrun st (c # s) = jrun (jstep st c) s"
  by (simp add: jrun_def)

lemma jrun_append: "jrun st (a @ b) = jrun (jrun st a) b"
  by (simp add: jrun_def)

lemma jrun_plain:
  "plainString s \<Longrightarrow> jrun (InString ms k acc) s = InString ms k (acc @ s)"
  by (induction s arbitrary: acc) (auto simp: jrun_Nil jrun_Cons plainString_def plainMessage_def)

lemma jrun_escaped:
  "plainMessage m \<Longrightarrow>
   jrun (InString ms k acc) (ReplaceAll m (CHR 0x22) [CHR 0x5C, CHR 0x22]) = InString ms k (acc @ m)"
  by (induction m arbitrary: acc)
     (auto simp: jrun_Nil jrun_Cons plainMessage_def ReplaceAll_def unescape_def)

lemma jrun_digits:
  "list_all isDigit ds \<Longrightarrow> jrun (InNumber ms k acc) ds = InNumber ms k (acc @ ds)"
  by (induction ds arbitrary: acc) (auto simp: jrun_Nil jrun_Cons)

lemma isDigit_byte: "d < 10 \<Longrightarrow> isDigit (byte (48 + d))"
  by (simp add: isDigit_def byte_def)

lemma digitsValue_snoc: "digitsValue (ds @ [c]) = digitsValue ds * 10 + (of_char c - 48)"
  by (simp add: digitsValue_def)

lemma FormatUint_digits: "list_all isDigit (FormatUint n) \<and> FormatUint n \<noteq> []"
proof (induction n rule: FormatUint.induct)
  case (1 n)
  show ?case
  proof (cases "n < 10")
    case True
    then show ?thesis by (simp add: FormatUint.simps[of n] isDigit_byte)
  next
    case False
    with 1 show ?thesis by (simp add: FormatUint.simps[of n] isDigit_byte)
  qed
qed

lemma FormatUint_value: "digitsValue (FormatUint n) = n"
proof (induction n rule: FormatUint.induct)
  case (1 n)
  show ?case
  proof (cases "n < 10")
    case True
    then show ?thesis by (simp add: FormatUint.simps[of n] digitsValue_def byte_def)
  next
    case False
    with 1 show ?thesis
      by (simp add: FormatUint.simps[of n] digitsValue_snoc byte_def)
  qed
qed

lemma FormatUint_hd: "hd (FormatUint n) = CHR ''0'' \<Longrightarrow> n = 0"
proof (induction n rule: FormatUint.induct)
  case (1 n)
  show ?case
  proof (cases "n < 10")
    case True
    with 1(2) show ?thesis
      by (simp add: FormatUint.simps[of n] byte_eq_iff)
  next
    case False
    then have "hd (FormatUint n) = hd (FormatUint (n div 10))"
      using FormatUint_digits[of "n div 10"] by (simp add: FormatUint.simps[of n])
    with 1 False have "n div 10 = 0" by simp
    with False show ?thesis by simp
  qed
qed

lemma FormatUint_single: "n < 10 \<Longrightarrow> FormatUint n = [byte (48 + n)]"
  by (simp add: FormatUint.simps[of n])

lemma jsonInt_FormatUint: "jsonInt (FormatUint n) = Some (int n)"
proof -
  obtain d ds where e: "FormatUint n = d # ds"
    using FormatUint_digits[of n] by (cases "FormatUint n") auto
  have dig: "isDigit d" "list_all isDigit ds"
    using FormatUint_digits[of n] by (simp_all add: e)
  then have nm: "d \<noteq> CHR ''-''" by (auto simp: isDigit_def)
  have z: "ds \<noteq> [] \<Longrightarrow> d \<noteq> CHR ''0''"
  proof
    assume "ds \<noteq> []" "d = CHR ''0''"
    then have "n = 0" using FormatUint_hd[of n] by (simp add: e)
    then have "FormatUint n = [byte 48]" by (simp add: FormatUint_single)
    with \<open>ds \<noteq> []\<close> show False by (simp add: e)
  qed
  show ?thesis
    using dig nm z FormatUint_value[of n]
    by (auto simp: jsonInt_def e Let_def)
qed

lemma jsonInt_FormatInt: "jsonInt (FormatInt i) = Some i"
proof (cases "i < 0")
  case True
  have "jsonInt (FormatUint (nat (- i))) = Some (int (nat (- i)))"
    by (rule jsonInt_FormatUint)
  moreover obtain d ds where e: "FormatUint (nat (- i)) = d # ds"
    using FormatUint_digits[of "nat (- i)"] by (cases "FormatUint (nat (- i))") auto
  moreover have "isDigit d" using FormatUint_digits[of "nat (- i)"] by (simp add: e)
  then have "d \<noteq> CHR ''-''" by (auto simp: isDigit_def)
  moreover have "hd (d # ds) = CHR ''0'' \<Longrightarrow> ds = []"
    using FormatUint_hd[of "nat (- i)"] True by (simp add: e)
  ultimately show ?thesis
    using True by (auto simp: jsonInt_def FormatInt_def Let_def split: if_splits)
next
  case False
  then show ?thesis
    using jsonInt_FormatUint[of "nat i"] by (simp add: FormatInt_def)
qed

lemma FormatInt_shape:
  "\<exists>d ds. FormatInt i = d # ds \<and> (d = CHR ''-'' \<or> isDigit d) \<and> list_all isDigit ds"
proof (cases "i < 0")
  case True
  then show ?thesis using FormatUint_digits[of "nat (- i)"] by (simp add: FormatInt_def)
next
  case False
  then obtain d ds where "FormatUint (nat i) = d # ds"
    using FormatUint_digits[of "nat i"] by (cases "FormatUint (nat i)") auto
  then show ?thesis
    using False FormatUint_digits[of "nat i"] by (simp add: FormatInt_def)
qed

lemma jrun_number:
  "jrun (Value ms k) (FormatInt i @ CHR '','' # rest) = jrun (NextKey (ms @ [(k, JNumber i)])) rest"
proof -
  obtain d ds where e: "FormatInt i = d # ds" and d: "d = CHR ''-'' \<or> isDigit d"
    and ds: "list_all isDigit ds"
    using FormatInt_shape[of i] by blast
  have nd: "d \<noteq> CHR 0x22" using d by (auto simp: isDigit_def)
  have "jrun (Value ms k) (FormatInt i @ CHR '','' # rest)
          = jrun (InNumber ms k [d]) (ds @ CHR '','' # rest)"
    using d nd by (auto simp: e jrun_Cons)
  also have "\<dots> = jrun (InNumber ms k (d # ds)) (CHR '','' # rest)"
    by (simp add: jrun_append jrun_digits[OF ds])
  also have "\<dots> = jrun (NextKey (ms @ [(k, JNumber i)])) rest"
    using jsonInt_FormatInt[of i] by (simp add: jrun_Cons e isDigit_def)
  finally show ?thesis .
qed

lemma jstep_number:
  "jstep (jrun (Value ms k) (FormatInt i)) (CHR '','') = NextKey (ms @ [(k, JNumber i)])"
  using jrun_number[of ms k i "[]"] by (simp add: jrun_append jrun_Cons jrun_Nil)

lemma body_reads_back:
  assumes "plainString (reason ce)" "plainString (startTime ce)" "plainString (name ce)"
      "plainString (namespace ce)" "plainMessage (message ce)"
  shows "json_object (json_body ce) =
           Parsed [(''reason'', JString (reason ce)), (''start_time'', JString (startTime ce)),
                   (''name'', JString (name ce)), (''namespace'', JString (namespace ce)),
                   (''count'', JNumber (sint (count ce))), (''message'', JString (message ce))]"
  using assms
  by (simp add: json_object_def json_body_def Sprintf_body jrun_Cons jrun_append jrun_Nil
        jrun_plain jrun_escaped jstep_number ws_def unescape_def)

lemma convert_example:
  "convertRecord (example_record r m) = Inr (example_event\<lparr>message := m, reason := r\<rparr>)"
  by (simp add: convertRecord_def example_record_def example_event_def Let_def FETCH_ATTR_def Get_def
        ATTR_EVENT_COUNT_def ATTR_EVENT_NAME_def ATTR_EVENT_NS_def ATTR_EVENT_REASON_def
        ATTR_EVENT_START_TIME_def ATTR_EVENT_UID_def)

text \<open>Every pointer that a call of \<^verbatim>\<open>pushLogs\<close> has in the channel is the address of \<open>ce\<close>.\<close>

lemma step_alias:
  "step s s' \<Longrightarrow> set (ceChan s) \<subseteq> {ce_addr s} \<Longrightarrow>
     set (ceChan s') \<subseteq> {ce_addr s'} \<and> ce_addr s' = ce_addr s"
  by (induction rule: step.induct) auto

lemma queued_pointers_alias:
  "step\<^sup>*\<^sup>* (pushLogs_start g ld) s \<Longrightarrow> set (ceChan s) \<subseteq> {0} \<and> ce_addr s = 0"
proof (induction rule: rtranclp_induct)
  case base
  show ?case by (simp add: pushLogs_start_def)
next
  case (step s s')
  then show ?case using step_alias[of s s'] by auto
qed

section \<open>Claims\<close>

text \<open>
  C1 (as amended). A log record that lacks the reason attribute is not removed by the
  filter pass of \<^verbatim>\<open>pushLogs\<close>, in either mode of the filter: it stays among the records
  that the conversion loops run over, and the call returns an error. The loops stop at
  the first record that lacks a required attribute: when every record before the record
  without reason is complete, the loops come to it, the error returned is the one for
  it, which names the reason attribute first, and the records before it have been sent.
\<close>

theorem record_without_reason_kept:
  assumes "lr \<in> set (logRecordsOf ld)" and "Get (Attributes lr) ATTR_EVENT_REASON = None"
  shows "lr \<in> set (logRecordsOf (filterLogs g ld))
         \<and> fst (pushLogs g ld) \<noteq> None
         \<and> hd (missingAttributes lr) = ATTR_EVENT_REASON
         \<and> (\<forall>pre post.
               logRecordsOf (filterLogs g ld) = pre @ lr # post
               \<and> (\<forall>r \<in> set pre. missingAttributes r = [])
             \<longrightarrow> pushLogs g ld =
                   (Some (errors_New (''Couldn't find ''
                                      @ concat (map (\<lambda>a. ''{'' @ a @ ''} '') (missingAttributes lr))
                                      @ ''attributes in the log'')),
                    map (\<lambda>r. projr (convertRecord r)) pre))"
proof -
  have k: "lr \<in> set (logRecordsOf (filterLogs g ld))"
  proof (cases "filterAllowAll g")
    case True
    with assms(1) show ?thesis by (simp add: filterLogs_def)
  next
    case False
    with assms show ?thesis by (simp add: filterLogs_records keepRecord_def)
  qed
  have m: "missingAttributes lr \<noteq> []" and h: "hd (missingAttributes lr) = ATTR_EVENT_REASON"
    using assms(2) by (simp_all add: missingAttributes_def)
  from k m have "\<exists>r \<in> set (logRecordsOf (filterLogs g ld)). missingAttributes r \<noteq> []" by blast
  from first_missing_split[OF this] obtain pre x post where
    "logRecordsOf (filterLogs g ld) = pre @ x # post"
    "\<forall>r \<in> set pre. missingAttributes r = []" "missingAttributes x \<noteq> []" by blast
  then have e: "fst (pushLogs g ld) \<noteq> None"
    using pushRecords_first_missing[of pre x post "[]"] by (simp add: pushLogs_flat)
  have f: "\<forall>pre post.
               logRecordsOf (filterLogs g ld) = pre @ lr # post
               \<and> (\<forall>r \<in> set pre. missingAttributes r = [])
             \<longrightarrow> pushLogs g ld =
                   (Some (errors_New (''Couldn't find ''
                                      @ concat (map (\<lambda>a. ''{'' @ a @ ''} '') (missingAttributes lr))
                                      @ ''attributes in the log'')),
                    map (\<lambda>r. projr (convertRecord r)) pre)"
    using pushRecords_first_missing[OF _ m, of _ _ "[]"] by (simp add: pushLogs_flat)
  from k e h f show ?thesis by blast
qed

theorem record_without_reason_kept_witness:
  "example_no_reason \<in> set (logRecordsOf (example_batch [example_record ''Created'' ''a'', example_no_reason]))
   \<and> Get (Attributes example_no_reason) ATTR_EVENT_REASON = None
   \<and> example_no_reason \<in> set (logRecordsOf (filterLogs example_globals
         (example_batch [example_record ''Created'' ''a'', example_no_reason])))
   \<and> logRecordsOf (filterLogs example_globals
         (example_batch [example_record ''Created'' ''a'', example_no_reason]))
        = [example_record ''Created'' ''a''] @ example_no_reason # []
   \<and> missingAttributes (example_record ''Created'' ''a'') = []
   \<and> pushLogs example_globals
         (example_batch [example_record ''Created'' ''a'', example_no_reason])
        = (Some (errors_New ''Couldn't find {k8s.event.reason} attributes in the log''),
           [\<lparr>count = 3, message = ''a'', name = ''pod-1'', namespace = ''default'',
             reason = ''Created'', startTime = ''2023-01-01T00:00:00Z'', uid = ''uid-1''\<rparr>])"
proof -
  let ?c = "example_record ''Created'' ''a''"
  let ?B = "example_batch [?c, example_no_reason]"
  have h1: "example_no_reason \<in> set (logRecordsOf ?B)"
    by simp
  have h2: "Get (Attributes example_no_reason) ATTR_EVENT_REASON = None"
    by simp
  have s: "logRecordsOf (filterLogs example_globals ?B) = [?c] @ example_no_reason # []"
    by (simp add: filterLogs_records)
  have p: "\<forall>r \<in> set [?c]. missingAttributes r = []"
    by simp
  have c: "convertRecord ?c = Inr \<lparr>count = 3, message = ''a'', name = ''pod-1'',
      namespace = ''default'', reason = ''Created'', startTime = ''2023-01-01T00:00:00Z'',
      uid = ''uid-1''\<rparr>"
    by (simp add: convert_example example_event_def)
  note T = record_without_reason_kept[OF h1 h2, of example_globals]
  from T have k: "example_no_reason \<in> set (logRecordsOf (filterLogs example_globals ?B))"
    by blast
  from T s p have "pushLogs example_globals ?B =
      (Some (errors_New (''Couldn't find ''
                         @ concat (map (\<lambda>a. ''{'' @ a @ ''} '') (missingAttributes example_no_reason))
                         @ ''attributes in the log'')),
       map (\<lambda>r. projr (convertRecord r)) [?c])"
    by blast
  then have r: "pushLogs example_globals ?B
        = (Some (errors_New ''Couldn't find {k8s.event.reason} attributes in the log''),
           [\<lparr>count = 3, message = ''a'', name = ''pod-1'', namespace = ''default'',
             reason = ''Created'', startTime = ''2023-01-01T00:00:00Z'', uid = ''uid-1''\<rparr>])"
    by (simp add: c ATTR_EVENT_REASON_def)
  from h1 h2 k s p r show ?thesis by simp
qed

text \<open>
  C1 (as stated) fails: with the allow-list \<open>Created\<close>, \<open>Deleted\<close> and a batch of the one
  record \<open>example_no_reason\<close>, which has no reason attribute, the filter pass returns the
  batch as it was, the record still in it.
\<close>

theorem record_without_reason_dropped_counterexample:
  "\<not> filterAllowAll example_globals
   \<and> Get (Attributes example_no_reason) ATTR_EVENT_REASON = None
   \<and> filterLogs example_globals (example_batch [example_no_reason]) = example_batch [example_no_reason]"
  by (simp add: filterLogs_def example_batch_def removeResourceLogs_def removeScopeLogs_def
        removeLogRecord_def Let_def)

text \<open>
  C2. When a record that survived the filter lacks one of the six required attributes,
  \<^verbatim>\<open>pushLogs\<close> returns one error. Its text lists the attributes that the first such record
  lacks, in the order reason, start_time, name, uid, namespace, count, and the only
  records converted and sent are the ones before that record.
\<close>

theorem missing_attributes_abort_batch:
  assumes "\<exists>r \<in> set (logRecordsOf (filterLogs g ld)). missingAttributes r \<noteq> []"
  shows "\<exists>pre lr post.
           logRecordsOf (filterLogs g ld) = pre @ lr # post
           \<and> (\<forall>r \<in> set pre. missingAttributes r = [])
           \<and> missingAttributes lr \<noteq> []
           \<and> pushLogs g ld =
               (Some (errors_New (''Couldn't find ''
                                  @ concat (map (\<lambda>a. ''{'' @ a @ ''} '') (missingAttributes lr))
                                  @ ''attributes in the log'')),
                map (\<lambda>r. projr (convertRecord r)) pre)"
proof -
  from first_missing_split[OF assms] obtain pre lr post where
    s: "logRecordsOf (filterLogs g ld) = pre @ lr # post"
    and p: "\<forall>r \<in> set pre. missingAttributes r = []" and m: "missingAttributes lr \<noteq> []"
    by blast
  have "pushLogs g ld =
               (Some (errors_New (''Couldn't find ''
                                  @ concat (map (\<lambda>a. ''{'' @ a @ ''} '') (missingAttributes lr))
                                  @ ''attributes in the log'')),
                map (\<lambda>r. projr (convertRecord r)) pre)"
    using pushRecords_first_missing[OF p m, of post "[]"] by (simp add: pushLogs_flat s)
  with s p m show ?thesis by blast
qed

theorem missing_attributes_abort_batch_witness:
  "(\<exists>r \<in> set (logRecordsOf (filterLogs example_globals
        (example_batch [example_record ''Created'' ''a'', example_missing_two,
                        example_record ''Deleted'' ''b'']))). missingAttributes r \<noteq> [])
   \<and> pushLogs example_globals
        (example_batch [example_record ''Created'' ''a'', example_missing_two,
                        example_record ''Deleted'' ''b''])
      = (Some (errors_New ''Couldn't find {k8s.event.reason} {k8s.event.name} attributes in the log''),
         [\<lparr>count = 3, message = ''a'', name = ''pod-1'', namespace = ''default'',
           reason = ''Created'', startTime = ''2023-01-01T00:00:00Z'', uid = ''uid-1''\<rparr>])"
proof -
  let ?c = "example_record ''Created'' ''a''" and ?d = "example_record ''Deleted'' ''b''"
  let ?B = "example_batch [?c, example_missing_two, ?d]"
  have rs: "logRecordsOf (filterLogs example_globals ?B) = [?c, example_missing_two, ?d]"
    by (simp add: filterLogs_records)
  have h: "\<exists>r \<in> set (logRecordsOf (filterLogs example_globals ?B)). missingAttributes r \<noteq> []"
    by (simp add: rs)
  from missing_attributes_abort_batch[OF h] obtain pre lr post where
    s: "logRecordsOf (filterLogs example_globals ?B) = pre @ lr # post"
    and p: "\<forall>r \<in> set pre. missingAttributes r = []"
    and m: "missingAttributes lr \<noteq> []"
    and r: "pushLogs example_globals ?B =
               (Some (errors_New (''Couldn't find ''
                                  @ concat (map (\<lambda>a. ''{'' @ a @ ''} '') (missingAttributes lr))
                                  @ ''attributes in the log'')),
                map (\<lambda>r. projr (convertRecord r)) pre)"
    by blast
  from s rs p m have "pre = [?c] \<and> lr = example_missing_two"
    by (auto simp: append_eq_Cons_conv Cons_eq_append_conv)
  moreover have "convertRecord ?c = Inr \<lparr>count = 3, message = ''a'', name = ''pod-1'',
      namespace = ''default'', reason = ''Created'', startTime = ''2023-01-01T00:00:00Z'',
      uid = ''uid-1''\<rparr>"
    by (simp add: convertRecord_def example_record_def Let_def FETCH_ATTR_def Get_def
        ATTR_EVENT_COUNT_def ATTR_EVENT_NAME_def ATTR_EVENT_NS_def ATTR_EVENT_REASON_def
        ATTR_EVENT_START_TIME_def ATTR_EVENT_UID_def)
  ultimately have "pushLogs example_globals ?B
      = (Some (errors_New ''Couldn't find {k8s.event.reason} {k8s.event.name} attributes in the log''),
         [\<lparr>count = 3, message = ''a'', name = ''pod-1'', namespace = ''default'',
           reason = ''Created'', startTime = ''2023-01-01T00:00:00Z'', uid = ''uid-1''\<rparr>])"
    using r by (simp add: ATTR_EVENT_REASON_def ATTR_EVENT_NAME_def)
  with h show ?thesis by blast
qed

text \<open>
  C3 (as amended). The allow-list and the allow-all mode are package variables, shared by
  the exporters of the process and set by each construction. With \<open>confs\<close> the
  configurations of the exporters constructed so far: when none of them has the wildcard
  filter \<open>*\<close>, a record with a reason attribute is among the records of the filtered batch
  exactly when it was in the batch and its reason is one of the values of the last filter
  expression configured that is not empty (of none when there is no such expression), and
  the filtered batch has no empty scope group and no empty resource group; when one of
  them has the wildcard filter, the batch is unchanged.
\<close>

theorem allow_list_of_the_process:
  assumes "g = constructions Validate confs initial_globals"
  shows "(\<not> wildcardConfigured Validate confs \<longrightarrow>
           (\<forall>lr v. Get (Attributes lr) ATTR_EVENT_REASON = Some v \<longrightarrow>
              (lr \<in> set (logRecordsOf (filterLogs g ld)) \<longleftrightarrow>
               lr \<in> set (logRecordsOf ld) \<and> AsString v \<in> set (allowList Validate confs)))
           \<and> (\<forall>rl \<in> set (filterLogs g ld).
                 ScopeLogs rl \<noteq> [] \<and> (\<forall>sl \<in> set (ScopeLogs rl). LogRecords sl \<noteq> [])))
         \<and> (wildcardConfigured Validate confs \<longrightarrow> filterLogs g ld = ld)"
proof -
  have A: "filterAllowAll g = wildcardConfigured Validate confs"
    by (simp add: assms constructions_filterAllowAll initial_globals_def)
  have F: "filters g = allowList Validate confs"
    by (simp add: assms constructions_filters allowList_def initial_globals_def Let_def)
  have W: "wildcardConfigured Validate confs \<longrightarrow> filterLogs g ld = ld"
    using A by (simp add: filterLogs_def)
  have N: "\<not> wildcardConfigured Validate confs \<longrightarrow>
           (\<forall>lr v. Get (Attributes lr) ATTR_EVENT_REASON = Some v \<longrightarrow>
              (lr \<in> set (logRecordsOf (filterLogs g ld)) \<longleftrightarrow>
               lr \<in> set (logRecordsOf ld) \<and> AsString v \<in> set (allowList Validate confs)))
           \<and> (\<forall>rl \<in> set (filterLogs g ld).
                 ScopeLogs rl \<noteq> [] \<and> (\<forall>sl \<in> set (ScopeLogs rl). LogRecords sl \<noteq> []))"
  proof
    assume "\<not> wildcardConfigured Validate confs"
    then have na: "\<not> filterAllowAll g" using A by simp
    have 1: "\<forall>lr v. Get (Attributes lr) ATTR_EVENT_REASON = Some v \<longrightarrow>
              (lr \<in> set (logRecordsOf (filterLogs g ld)) \<longleftrightarrow>
               lr \<in> set (logRecordsOf ld) \<and> AsString v \<in> set (allowList Validate confs))"
      using F by (auto simp: filterLogs_records[OF na] keepRecord_def)
    have 2: "\<forall>rl \<in> set (filterLogs g ld).
                 ScopeLogs rl \<noteq> [] \<and> (\<forall>sl \<in> set (ScopeLogs rl). LogRecords sl \<noteq> [])"
      using na RemoveIf_resources_nonempty[of _ g ld] by (auto simp: filterLogs_def)
    from 1 2 show "(\<forall>lr v. Get (Attributes lr) ATTR_EVENT_REASON = Some v \<longrightarrow>
              (lr \<in> set (logRecordsOf (filterLogs g ld)) \<longleftrightarrow>
               lr \<in> set (logRecordsOf ld) \<and> AsString v \<in> set (allowList Validate confs)))
           \<and> (\<forall>rl \<in> set (filterLogs g ld).
                 ScopeLogs rl \<noteq> [] \<and> (\<forall>sl \<in> set (ScopeLogs rl). LogRecords sl \<noteq> []))"
      by blast
  qed
  from N W show ?thesis by blast
qed

theorem allow_list_of_the_process_witness:
  "example_globals = constructions (\<lambda>c. None) [example_config] initial_globals
   \<and> \<not> wildcardConfigured (\<lambda>c. None) [example_config]
   \<and> allowList (\<lambda>c. None) [example_config] = [''Created'', ''Deleted'']
   \<and> Get (Attributes (example_record ''Created'' ''a'')) ATTR_EVENT_REASON = Some (ValueStr ''Created'')
   \<and> example_record ''Created'' ''a''
        \<in> set (logRecordsOf (filterLogs example_globals
              (example_batch [example_record ''Created'' ''a'', example_record ''Scaled'' ''b''])))
   \<and> example_record ''Scaled'' ''b''
        \<notin> set (logRecordsOf (filterLogs example_globals
              (example_batch [example_record ''Created'' ''a'', example_record ''Scaled'' ''b''])))
   \<and> filterLogs example_globals
        (example_batch [example_record ''Created'' ''a'', example_record ''Scaled'' ''b''])
      = example_batch [example_record ''Created'' ''a'']
   \<and> \<lparr>filters = [''*''], filterAllowAll = True, typeVersion = ''v1''\<rparr>
      = constructions (\<lambda>c. None) [example_config\<lparr>Filter := ''*''\<rparr>] initial_globals
   \<and> wildcardConfigured (\<lambda>c. None) [example_config\<lparr>Filter := ''*''\<rparr>]
   \<and> filterLogs \<lparr>filters = [''*''], filterAllowAll = True, typeVersion = ''v1''\<rparr>
        (example_batch [example_record ''Created'' ''a'', example_record ''Scaled'' ''b''])
      = example_batch [example_record ''Created'' ''a'', example_record ''Scaled'' ''b'']"
proof -
  let ?B = "example_batch [example_record ''Created'' ''a'', example_record ''Scaled'' ''b'']"
  let ?gs = "\<lparr>filters = [''*''], filterAllowAll = True, typeVersion = ''v1''\<rparr>"
  have h1: "example_globals = constructions (\<lambda>c. None) [example_config] initial_globals"
    by (simp add: newExporter_def example_config_def example_globals_def
        initial_globals_def Let_def EncodeRune_def byte_eq_iff)
  have h2: "?gs = constructions (\<lambda>c. None) [example_config\<lparr>Filter := ''*''\<rparr>] initial_globals"
    by (simp add: newExporter_def example_config_def initial_globals_def Let_def
        EncodeRune_def byte_eq_iff)
  have w1: "\<not> wildcardConfigured (\<lambda>c. None) [example_config]"
    and w2: "wildcardConfigured (\<lambda>c. None) [example_config\<lparr>Filter := ''*''\<rparr>]"
    and al: "allowList (\<lambda>c. None) [example_config] = [''Created'', ''Deleted'']"
    by (simp_all add: wildcardConfigured_def allowList_def example_config_def)
  have g1: "Get (Attributes (example_record ''Created'' ''a'')) ATTR_EVENT_REASON
              = Some (ValueStr ''Created'')"
    and g2: "Get (Attributes (example_record ''Scaled'' ''b'')) ATTR_EVENT_REASON
              = Some (ValueStr ''Scaled'')"
    by simp_all
  note T1 = allow_list_of_the_process[OF h1, of ?B]
  note T2 = allow_list_of_the_process[OF h2, of ?B]
  from T1 w1 al g1 have a: "example_record ''Created'' ''a''
        \<in> set (logRecordsOf (filterLogs example_globals ?B))"
    by simp
  from T1 w1 al g2 have b: "example_record ''Scaled'' ''b''
        \<notin> set (logRecordsOf (filterLogs example_globals ?B))"
    by simp
  have d: "filterLogs example_globals ?B = example_batch [example_record ''Created'' ''a'']"
    by (simp add: filterLogs_def example_batch_def removeResourceLogs_def removeScopeLogs_def
        removeLogRecord_def example_globals_def Let_def)
  from T2 w2 have c: "filterLogs ?gs ?B = ?B"
    by simp
  from h1 h2 w1 w2 al g1 a b c d show ?thesis by blast
qed

text \<open>
  C3 (as stated) fails when the process has more than one exporter. After an exporter
  with the wildcard filter, the package variable \<open>filterAllowAll\<close> stays set: the
  exporter constructed next with the filter \<open>Created|Deleted\<close>, which is not the wildcard,
  keeps a record whose reason is \<open>Scaled\<close>. After an exporter with the filter \<open>Scaled\<close>,
  constructed later, the batches of the exporter with the filter \<open>Created|Deleted\<close> are
  filtered by the allow-list \<open>Scaled\<close>: a record whose reason is \<open>Created\<close> is removed.
\<close>

theorem filter_of_another_exporter_counterexample:
  "newExporter (\<lambda>c. None) (example_config\<lparr>Filter := ''*''\<rparr>) initial_globals
     = Inr (\<lparr>config = example_config\<lparr>Filter := ''*''\<rparr>, source = ''k8s-cluster''\<rparr>,
            \<lparr>filters = [''*''], filterAllowAll = True, typeVersion = ''v1''\<rparr>)
   \<and> newExporter (\<lambda>c. None) example_config
        \<lparr>filters = [''*''], filterAllowAll = True, typeVersion = ''v1''\<rparr>
     = Inr (example_exporter,
            \<lparr>filters = [''Created'', ''Deleted''], filterAllowAll = True, typeVersion = ''v1''\<rparr>)
   \<and> Filter (config example_exporter) = ''Created|Deleted''
   \<and> filterLogs \<lparr>filters = [''Created'', ''Deleted''], filterAllowAll = True, typeVersion = ''v1''\<rparr>
        (example_batch [example_record ''Scaled'' ''b''])
      = example_batch [example_record ''Scaled'' ''b'']
   \<and> newExporter (\<lambda>c. None) example_config initial_globals = Inr (example_exporter, example_globals)
   \<and> newExporter (\<lambda>c. None) (example_config\<lparr>Filter := ''Scaled''\<rparr>) example_globals
     = Inr (\<lparr>config = example_config\<lparr>Filter := ''Scaled''\<rparr>, source = ''k8s-cluster''\<rparr>,
            \<lparr>filters = [''Scaled''], filterAllowAll = False, typeVersion = ''v1''\<rparr>)
   \<and> filterLogs \<lparr>filters = [''Scaled''], filterAllowAll = False, typeVersion = ''v1''\<rparr>
        (example_batch [example_record ''Created'' ''a''])
      = []"
  by (simp add: newExporter_def example_config_def example_exporter_def example_globals_def
        initial_globals_def Let_def EncodeRune_def byte_eq_iff filterLogs_def example_batch_def
        removeResourceLogs_def removeScopeLogs_def removeLogRecord_def example_record_def
        Get_def ATTR_EVENT_COUNT_def ATTR_EVENT_NAME_def ATTR_EVENT_NS_def ATTR_EVENT_REASON_def
        ATTR_EVENT_START_TIME_def ATTR_EVENT_UID_def)

text \<open>
  C4. A run of \<^verbatim>\<open>pushLogs\<close> on a batch of two complete records and of the two workers,
  in which both sends happen before the first receive (the channel has room for two):
  both pointers in the channel are the address of \<open>ce\<close>, which holds the second record
  by then. Worker 0 and worker 1 each read the second record; the first record, which
  was sent, is read by no worker.
\<close>

theorem queued_pointer_aliases_ce:
  "step\<^sup>*\<^sup>*
     (pushLogs_start example_globals
        (example_batch [example_record ''Created'' ''first'', example_record ''Deleted'' ''second'']))
     \<lparr>memory = (\<lambda>a. None)(0 := Some second_event), ceChan = [], ce_addr = 0, pending = [],
      sends = [(0, first_event), (0, second_event)],
      reads = [(0, 0, second_event), (1, 0, second_event)]\<rparr>
   \<and> first_event \<noteq> second_event"
proof -
  let ?A = "example_record ''Created'' ''first''" and ?B = "example_record ''Deleted'' ''second''"
  define s0 where "s0 = pushLogs_start example_globals (example_batch [?A, ?B])"
  define s1 where "s1 = \<lparr>memory = (\<lambda>a. None)(0 := Some first_event), ceChan = [0], ce_addr = 0,
      pending = [?B], sends = [(0, first_event)], reads = []\<rparr>"
  define s2 where "s2 = \<lparr>memory = (\<lambda>a. None)(0 := Some second_event), ceChan = [0, 0],
      ce_addr = 0, pending = [], sends = [(0, first_event), (0, second_event)], reads = []\<rparr>"
  define s3 where "s3 = \<lparr>memory = (\<lambda>a. None)(0 := Some second_event), ceChan = [0],
      ce_addr = 0, pending = [], sends = [(0, first_event), (0, second_event)],
      reads = [(0, 0, second_event)]\<rparr>"
  define s4 where "s4 = \<lparr>memory = (\<lambda>a. None)(0 := Some second_event), ceChan = [],
      ce_addr = 0, pending = [], sends = [(0, first_event), (0, second_event)],
      reads = [(0, 0, second_event), (1, 0, second_event)]\<rparr>"
  have cA: "convertRecord ?A = Inr first_event" and cB: "convertRecord ?B = Inr second_event"
    by (simp_all add: convert_example first_event_def second_event_def example_event_def)
  have p0: "s0 = \<lparr>memory = (\<lambda>a. None)(0 := Some zero_cloudeventdata), ceChan = [], ce_addr = 0,
      pending = [?A, ?B], sends = [], reads = []\<rparr>"
    by (simp add: s0_def pushLogs_start_def filterLogs_records)
  have "step s0 s1"
    using step.produce[of s0 ?A "[?B]" first_event] cA
    by (simp add: p0 s1_def CHAN_SZ_def)
  moreover have "step s1 s2"
    using step.produce[of s1 ?B "[]" second_event] cB
    by (simp add: s1_def s2_def CHAN_SZ_def)
  moreover have "step s2 s3"
    using step.consume[of s2 0 "[0]" second_event 0]
    by (simp add: s2_def s3_def CHAN_SZ_def)
  moreover have "step s3 s4"
    using step.consume[of s3 0 "[]" second_event 1]
    by (simp add: s3_def s4_def CHAN_SZ_def)
  ultimately have r: "step\<^sup>*\<^sup>* s0 s4"
    by (meson rtranclp.rtrancl_into_rtrancl rtranclp.rtrancl_refl)
  note r
  moreover have "first_event \<noteq> second_event"
    by (simp add: first_event_def second_event_def example_event_def)
  ultimately show ?thesis
    by (simp add: s0_def s4_def)
qed

text \<open>
  C5. The body of an event whose strings are plain is the JSON object of the claim
  (\<open>body_reads_back\<close> above): for \<open>quoted_event\<close>, whose message has two quotes, the
  body reads back as the six fields with the values of the record, the quotes of the
  message restored. For \<open>backslash_event\<close>, whose message ends with a backslash, the
  body is not a JSON object: only quotes are escaped, so the backslash escapes the quote
  that was to end the message, and the string has no end.
\<close>

theorem body_not_json_after_backslash:
  "json_object (json_body quoted_event) =
     Parsed [(''reason'', JString ''Created''), (''start_time'', JString ''2023-01-01T00:00:00Z''),
             (''name'', JString ''pod-1''), (''namespace'', JString ''default''),
             (''count'', JNumber 3),
             (''message'', JString (''say '' @ [CHR 0x22] @ ''hi'' @ [CHR 0x22]))]
   \<and> json_body backslash_event =
     ''{\"reason\":\"Created\",\"start_time\":\"2023-01-01T00:00:00Z\",\"name\":\"pod-1\",\"namespace\":\"default\",\"count\":3,\"message\":\"cannot mount C:''
     @ [CHR 0x5C] @ ''\"}''
   \<and> json_object (json_body backslash_event) = NotJSON"
  using read_quoted body_backslash read_backslash by blast

text \<open>
  C6 (as amended). The type-version tag is a package variable that every construction with
  a non-empty spec-version sets. For an exporter whose configured spec-version string is
  not empty and starts with an ASCII character \<open>c\<close>, as long as no exporter with a
  non-empty spec-version is constructed after it, the Ce-Type header of the request of
  every event whose reason is UTF-8 text is the configured prefix, \<open>.\<close>, \<open>v\<close> followed by
  \<open>c\<close>, \<open>.\<close>, and the reason with its whitespace characters removed.
\<close>

theorem ce_type_header:
  assumes "newExporter Validate conf g0 = Inr (e, g1)"
      and "g = constructions Validate later g1"
      and "\<forall>k \<in> set later. SpecVersion (Ce k) = []"
      and "SpecVersion (Ce conf) = c # cs" and "of_char c < (0x80 :: nat)"
      and "reason ce = utf8 rs" and "\<forall>r \<in> set rs. ValidRune r"
  shows "map_of (Header (newRequest g e ce)) HEADER_CE_TYPE
           = Some (AppendType (Ce conf) @ ''.'' @ [CHR ''v'', c] @ ''.''
                   @ removeWhitespace (reason ce))"
proof -
  have "typeVersion g = typeVersion g1"
    using constructions_typeVersion_kept[OF assms(3)] by (simp add: assms(2))
  moreover have "typeVersion g1 = [CHR ''v'', c]" and "config e = conf"
    using newExporter_globals(3,4)[OF assms(1)] assms(4,5) by (simp_all add: EncodeRune_ascii)
  ultimately show ?thesis
    by (simp add: ce_type_utf8[OF assms(6,7)])
qed

theorem ce_type_header_witness:
  "newExporter (\<lambda>c. None) example_config initial_globals = Inr (example_exporter, example_globals)
   \<and> example_globals = constructions (\<lambda>c. None) [example_config_no_version] example_globals
   \<and> SpecVersion (Ce example_config_no_version) = []
   \<and> SpecVersion (Ce example_config) = CHR ''1'' # ''.0''
   \<and> (of_char CHR ''1'' :: nat) < 0x80
   \<and> reason (example_event\<lparr>reason := spaced_reason\<rparr>) = utf8 spaced_runes
   \<and> list_all ValidRune spaced_runes
   \<and> map_of (Header (newRequest example_globals example_exporter
                       (example_event\<lparr>reason := spaced_reason\<rparr>))) HEADER_CE_TYPE
        = Some ''com.example.v1.FailedMountofvolume''"
proof -
  have h1: "newExporter (\<lambda>c. None) example_config initial_globals
              = Inr (example_exporter, example_globals)"
    by (simp add: newExporter_def example_config_def example_exporter_def example_globals_def
        initial_globals_def Let_def EncodeRune_def byte_eq_iff)
  have h2: "example_globals = constructions (\<lambda>c. None) [example_config_no_version] example_globals"
    by (simp add: newExporter_def example_config_no_version_def example_config_def
        example_globals_def Let_def)
  have h3: "\<forall>k \<in> set [example_config_no_version]. SpecVersion (Ce k) = []"
    by (simp add: example_config_no_version_def)
  have h4: "SpecVersion (Ce example_config) = CHR ''1'' # ''.0''"
    by (simp add: example_config_def)
  have h5: "(of_char CHR ''1'' :: nat) < 0x80"
    by simp
  have h6: "reason (example_event\<lparr>reason := spaced_reason\<rparr>) = utf8 spaced_runes"
    by (simp add: spaced_reason_def spaced_runes_def utf8_def EncodeRune_def byte_eq_iff)
  have v: "list_all ValidRune spaced_runes"
    by (simp add: spaced_runes_def ValidRune_def)
  then have h7: "\<forall>r \<in> set spaced_runes. ValidRune r"
    by (simp add: list_all_iff)
  from ce_type_header[OF h1 h2 h3 h4 h5 h6 h7]
  have "map_of (Header (newRequest example_globals example_exporter
                       (example_event\<lparr>reason := spaced_reason\<rparr>))) HEADER_CE_TYPE
        = Some ''com.example.v1.FailedMountofvolume''"
    by (simp add: removeWhitespace_spaced_reason example_config_def)
  with h1 h2 h3 h4 h5 h6 v show ?thesis by simp
qed

text \<open>
  C6 (as stated) fails, in four ways. With an empty spec-version the tag is never set and
  the header is \<open>com.example..Created\<close>, with no \<open>v\<close>. With a spec-version that starts
  with \<open>U+00E9\<close> (the bytes C3 A9), \<^verbatim>\<open>string(conf.Ce.SpecVersion[0])\<close> is the encoding
  of the rune \<open>U+00C3\<close> (the bytes C3 83), not the first character of the string. Once a
  second exporter is constructed with the spec-version \<open>2.0\<close>, the exporter configured
  with \<open>1.0\<close> sends \<open>com.example.v2.Created\<close>. And for the reason \<open>a\<close>, \<open>FF\<close>, \<open>b\<close>, which
  has no whitespace in it, the header ends with \<open>a\<close>, \<open>EF BF BD\<close>, \<open>b\<close>: the loop writes
  U+FFFD for the byte that is not UTF-8.
\<close>

theorem ce_type_header_counterexample:
  "newExporter (\<lambda>c. None) example_config_no_version initial_globals
     = Inr (\<lparr>config = example_config_no_version, source = ''k8s-cluster''\<rparr>,
            \<lparr>filters = [''Created'', ''Deleted''], filterAllowAll = False, typeVersion = []\<rparr>)
   \<and> map_of (Header (newRequest
                \<lparr>filters = [''Created'', ''Deleted''], filterAllowAll = False, typeVersion = []\<rparr>
                \<lparr>config = example_config_no_version, source = ''k8s-cluster''\<rparr>
                example_event)) HEADER_CE_TYPE
        = Some ''com.example..Created''
   \<and> newExporter (\<lambda>c. None) example_config_accent initial_globals
     = Inr (\<lparr>config = example_config_accent, source = ''k8s-cluster''\<rparr>,
            \<lparr>filters = [''Created'', ''Deleted''], filterAllowAll = False,
             typeVersion = [CHR ''v'', CHR 0xC3, CHR 0x83]\<rparr>)
   \<and> map_of (Header (newRequest
                \<lparr>filters = [''Created'', ''Deleted''], filterAllowAll = False,
                 typeVersion = [CHR ''v'', CHR 0xC3, CHR 0x83]\<rparr>
                \<lparr>config = example_config_accent, source = ''k8s-cluster''\<rparr>
                example_event)) HEADER_CE_TYPE
        = Some (''com.example.v'' @ [CHR 0xC3, CHR 0x83] @ ''.Created'')
   \<and> newExporter (\<lambda>c. None) example_config initial_globals = Inr (example_exporter, example_globals)
   \<and> SpecVersion (Ce (config example_exporter)) = ''1.0''
   \<and> newExporter (\<lambda>c. None) example_config_v2 example_globals
     = Inr (\<lparr>config = example_config_v2, source = ''k8s-cluster''\<rparr>,
            \<lparr>filters = [''Created'', ''Deleted''], filterAllowAll = False, typeVersion = ''v2''\<rparr>)
   \<and> map_of (Header (newRequest
                \<lparr>filters = [''Created'', ''Deleted''], filterAllowAll = False, typeVersion = ''v2''\<rparr>
                example_exporter example_event)) HEADER_CE_TYPE
        = Some ''com.example.v2.Created''
   \<and> removeWhitespace invalid_reason = invalid_reason
   \<and> map_of (Header (newRequest example_globals example_exporter
                       (example_event\<lparr>reason := invalid_reason\<rparr>))) HEADER_CE_TYPE
        = Some (''com.example.v1.a'' @ [CHR 0xEF, CHR 0xBF, CHR 0xBD] @ ''b'')"
proof -
  have n: "newExporter (\<lambda>c. None) example_config_no_version initial_globals
     = Inr (\<lparr>config = example_config_no_version, source = ''k8s-cluster''\<rparr>,
            \<lparr>filters = [''Created'', ''Deleted''], filterAllowAll = False, typeVersion = []\<rparr>)"
    "newExporter (\<lambda>c. None) example_config_accent initial_globals
     = Inr (\<lparr>config = example_config_accent, source = ''k8s-cluster''\<rparr>,
            \<lparr>filters = [''Created'', ''Deleted''], filterAllowAll = False,
             typeVersion = [CHR ''v'', CHR 0xC3, CHR 0x83]\<rparr>)"
    "newExporter (\<lambda>c. None) example_config initial_globals = Inr (example_exporter, example_globals)"
    "newExporter (\<lambda>c. None) example_config_v2 example_globals
     = Inr (\<lparr>config = example_config_v2, source = ''k8s-cluster''\<rparr>,
            \<lparr>filters = [''Created'', ''Deleted''], filterAllowAll = False, typeVersion = ''v2''\<rparr>)"
    "SpecVersion (Ce (config example_exporter)) = ''1.0''"
    by (simp_all add: newExporter_def example_config_no_version_def example_config_accent_def
        example_config_v2_def example_config_def example_exporter_def example_globals_def
        initial_globals_def Let_def EncodeRune_def byte_eq_iff)
  have h: "map_of (Header (newRequest
                \<lparr>filters = [''Created'', ''Deleted''], filterAllowAll = False, typeVersion = []\<rparr>
                \<lparr>config = example_config_no_version, source = ''k8s-cluster''\<rparr>
                example_event)) HEADER_CE_TYPE
        = Some ''com.example..Created''"
    "map_of (Header (newRequest
                \<lparr>filters = [''Created'', ''Deleted''], filterAllowAll = False,
                 typeVersion = [CHR ''v'', CHR 0xC3, CHR 0x83]\<rparr>
                \<lparr>config = example_config_accent, source = ''k8s-cluster''\<rparr>
                example_event)) HEADER_CE_TYPE
        = Some (''com.example.v'' @ [CHR 0xC3, CHR 0x83] @ ''.Created'')"
    "map_of (Header (newRequest
                \<lparr>filters = [''Created'', ''Deleted''], filterAllowAll = False, typeVersion = ''v2''\<rparr>
                example_exporter example_event)) HEADER_CE_TYPE
        = Some ''com.example.v2.Created''"
    by (simp_all add: header_Created[OF reason_example_event] example_exporter_def
        example_config_no_version_def example_config_accent_def example_config_def)
  have i: "removeWhitespace invalid_reason = invalid_reason"
    "map_of (Header (newRequest example_globals example_exporter
                       (example_event\<lparr>reason := invalid_reason\<rparr>))) HEADER_CE_TYPE
        = Some (''com.example.v1.a'' @ [CHR 0xEF, CHR 0xBF, CHR 0xBD] @ ''b'')"
    by (simp_all add: ce_type_of_request invalid_reason_def DecodeRune_def IsSpace_def
        EncodeRune_def RuneError_def cont_def byte_eq_iff example_exporter_def example_config_def
        example_globals_def)
  from n h i show ?thesis by simp
qed

text \<open>
  C7. When the request of an event was made and a response came back, the worker (with
  the constant \<open>RETRY_ENABLED\<close> as it is, false) logs nothing if the status is in
  200..299, and otherwise logs one error, the plain one and no retry signal; in both
  cases the request of the event is the only one made.
\<close>

theorem failure_logged_iff_status_not_2xx:
  assumes "NewRequest_error h ''POST'' (Endpoint (config e)) = None"
      and "Do h (newRequest g e ce) = Inr res"
  shows "exportEvent h RETRY_ENABLED g e ce =
           \<lparr>errorsLogged =
              (if 200 \<le> StatusCode res \<and> StatusCode res \<le> 299 then []
               else [Plain (errors_New (''error exporting items, request to '' @ Endpoint (config e)
                                        @ '' responded with HTTP Status Code ''
                                        @ FormatInt (StatusCode res)))]),
            requestsDone = [newRequest g e ce]\<rparr>"
  using assms
  by (simp add: exportEvent_def handleResponse_def RETRY_ENABLED_def Let_def Sprintf_formattedErr)

theorem failure_logged_iff_status_not_2xx_witness:
  "NewRequest_error (example_http 201 []) ''POST'' (Endpoint (config example_exporter)) = None
   \<and> Do (example_http 201 []) (newRequest example_globals example_exporter example_event)
        = Inr \<lparr>StatusCode = 201, ResponseHeader = []\<rparr>
   \<and> exportEvent (example_http 201 []) RETRY_ENABLED example_globals example_exporter example_event
        = \<lparr>errorsLogged = [],
           requestsDone = [newRequest example_globals example_exporter example_event]\<rparr>
   \<and> exportEvent (example_http 503 [(''Retry-After'', [''5''])]) RETRY_ENABLED example_globals
          example_exporter example_event
        = \<lparr>errorsLogged =
             [Plain (errors_New ''error exporting items, request to http://sink.local/events responded with HTTP Status Code 503'')],
           requestsDone = [newRequest example_globals example_exporter example_event]\<rparr>"
proof -
  let ?h1 = "example_http 201 []" and ?h2 = "example_http 503 [(''Retry-After'', [''5''])]"
  let ?q = "newRequest example_globals example_exporter example_event"
  have a1: "NewRequest_error ?h1 ''POST'' (Endpoint (config example_exporter)) = None"
    and a2: "NewRequest_error ?h2 ''POST'' (Endpoint (config example_exporter)) = None"
    and b1: "Do ?h1 ?q = Inr \<lparr>StatusCode = 201, ResponseHeader = []\<rparr>"
    and b2: "Do ?h2 ?q = Inr \<lparr>StatusCode = 503, ResponseHeader = [(''Retry-After'', [''5''])]\<rparr>"
    by (simp_all add: example_http_def)
  have ep: "Endpoint (config example_exporter) = ''http://sink.local/events''"
    by (simp add: example_exporter_def example_config_def)
  from failure_logged_iff_status_not_2xx[OF a1 b1] failure_logged_iff_status_not_2xx[OF a2 b2]
    a1 b1 show ?thesis
    by (simp add: ep FormatInt_503)
qed

text \<open>
  C9. Construction fails exactly when \<^verbatim>\<open>Validate\<close> fails, and then with the error of
  \<^verbatim>\<open>Validate\<close>: no filter expression makes it fail. With the expression \<open>|\<close>, which
  has no value in it, the exporter is constructed and the allow-list is two empty strings.
\<close>

theorem construction_ignores_filter_error:
  "(newExporter Validate conf g = Inl err) = (Validate conf = Some err)
   \<and> newExporter (\<lambda>c. None) (example_config\<lparr>Filter := ''|''\<rparr>) initial_globals
     = Inr (\<lparr>config = example_config\<lparr>Filter := ''|''\<rparr>, source = ''k8s-cluster''\<rparr>,
            \<lparr>filters = [[], []], filterAllowAll = False, typeVersion = ''v1''\<rparr>)"
proof -
  have "(newExporter Validate conf g = Inl err) = (Validate conf = Some err)"
    by (rule newExporter_Inl_iff)
  moreover have "newExporter (\<lambda>c. None) (example_config\<lparr>Filter := ''|''\<rparr>) initial_globals
     = Inr (\<lparr>config = example_config\<lparr>Filter := ''|''\<rparr>, source = ''k8s-cluster''\<rparr>,
            \<lparr>filters = [[], []], filterAllowAll = False, typeVersion = ''v1''\<rparr>)"
    by (simp add: newExporter_def example_config_def initial_globals_def Let_def
        EncodeRune_def byte_eq_iff)
  ultimately show ?thesis by blast
qed

text \<open>
  C10 (as amended). When the configured spec-version string is empty and \<^verbatim>\<open>Validate\<close>
  accepts the configuration, construction succeeds and leaves the type-version tag, a
  package variable, as it was. When the tag was the empty string, its initial value, then
  as long as no exporter with a non-empty spec-version is constructed afterwards, the
  Ce-Type header of the request of every event whose reason is UTF-8 text is the prefix,
  two dots, and the reason with its whitespace characters removed.
\<close>

theorem empty_spec_version:
  assumes "Validate conf = None" and "SpecVersion (Ce conf) = []"
  shows "\<exists>e g1. newExporter Validate conf g0 = Inr (e, g1)
           \<and> typeVersion g1 = typeVersion g0
           \<and> (\<forall>later ce rs.
                 typeVersion g0 = [] \<and> (\<forall>k \<in> set later. SpecVersion (Ce k) = [])
                 \<and> reason ce = utf8 rs \<and> (\<forall>r \<in> set rs. ValidRune r)
               \<longrightarrow> map_of (Header (newRequest (constructions Validate later g1) e ce)) HEADER_CE_TYPE
                     = Some (AppendType (Ce conf) @ ''..'' @ removeWhitespace (reason ce)))"
proof -
  obtain e g1 where n: "newExporter Validate conf g0 = Inr (e, g1)"
    using newExporter_cases[of Validate conf g0] assms(1) by auto
  from newExporter_globals(3,4)[OF n] assms(2)
  have t: "typeVersion g1 = typeVersion g0" and c: "config e = conf"
    by simp_all
  have "\<forall>later ce rs.
                 typeVersion g0 = [] \<and> (\<forall>k \<in> set later. SpecVersion (Ce k) = [])
                 \<and> reason ce = utf8 rs \<and> (\<forall>r \<in> set rs. ValidRune r)
               \<longrightarrow> map_of (Header (newRequest (constructions Validate later g1) e ce)) HEADER_CE_TYPE
                     = Some (AppendType (Ce conf) @ ''..'' @ removeWhitespace (reason ce))"
    using t c by (auto simp: ce_type_utf8 constructions_typeVersion_kept)
  with n t show ?thesis by blast
qed

theorem empty_spec_version_witness:
  "SpecVersion (Ce example_config_no_version) = []
   \<and> newExporter (\<lambda>c. None) example_config_no_version initial_globals
     = Inr (\<lparr>config = example_config_no_version, source = ''k8s-cluster''\<rparr>,
            \<lparr>filters = [''Created'', ''Deleted''], filterAllowAll = False, typeVersion = []\<rparr>)
   \<and> typeVersion initial_globals = []
   \<and> constructions (\<lambda>c. None) [example_config_no_version]
        \<lparr>filters = [''Created'', ''Deleted''], filterAllowAll = False, typeVersion = []\<rparr>
      = \<lparr>filters = [''Created'', ''Deleted''], filterAllowAll = False, typeVersion = []\<rparr>
   \<and> reason (example_event\<lparr>reason := spaced_reason\<rparr>) = utf8 spaced_runes
   \<and> list_all ValidRune spaced_runes
   \<and> map_of (Header (newRequest
                \<lparr>filters = [''Created'', ''Deleted''], filterAllowAll = False, typeVersion = []\<rparr>
                \<lparr>config = example_config_no_version, source = ''k8s-cluster''\<rparr>
                (example_event\<lparr>reason := spaced_reason\<rparr>))) HEADER_CE_TYPE
        = Some ''com.example..FailedMountofvolume''"
proof -
  let ?g = "\<lparr>filters = [''Created'', ''Deleted''], filterAllowAll = False, typeVersion = []\<rparr>"
  let ?e = "\<lparr>config = example_config_no_version, source = ''k8s-cluster''\<rparr>"
  let ?ce = "example_event\<lparr>reason := spaced_reason\<rparr>"
  have h1: "(\<lambda>c. None :: error option) example_config_no_version = None"
    by simp
  have h2: "SpecVersion (Ce example_config_no_version) = []"
    by (simp add: example_config_no_version_def)
  have n: "newExporter (\<lambda>c. None) example_config_no_version initial_globals = Inr (?e, ?g)"
    by (simp add: newExporter_def example_config_no_version_def example_config_def
        initial_globals_def Let_def)
  have t: "typeVersion initial_globals = []"
    by (simp add: initial_globals_def)
  have l: "constructions (\<lambda>c. None) [example_config_no_version] ?g = ?g"
    by (simp add: newExporter_def example_config_no_version_def example_config_def Let_def)
  have k: "\<forall>k \<in> set [example_config_no_version]. SpecVersion (Ce k) = []"
    by (simp add: h2)
  have r: "reason ?ce = utf8 spaced_runes"
    by (simp add: spaced_reason_def spaced_runes_def utf8_def EncodeRune_def byte_eq_iff)
  have v: "list_all ValidRune spaced_runes"
    by (simp add: spaced_runes_def ValidRune_def)
  then have v': "\<forall>r \<in> set spaced_runes. ValidRune r"
    by (simp add: list_all_iff)
  from empty_spec_version[of "\<lambda>c. None", OF h1 h2, of initial_globals] n
  have "\<forall>later ce rs.
                 typeVersion initial_globals = [] \<and> (\<forall>k \<in> set later. SpecVersion (Ce k) = [])
                 \<and> reason ce = utf8 rs \<and> (\<forall>r \<in> set rs. ValidRune r)
               \<longrightarrow> map_of (Header (newRequest (constructions (\<lambda>c. None) later ?g) ?e ce)) HEADER_CE_TYPE
                     = Some (AppendType (Ce example_config_no_version) @ ''..''
                             @ removeWhitespace (reason ce))"
    by simp
  with t k r v' have "map_of (Header (newRequest
         (constructions (\<lambda>c. None) [example_config_no_version] ?g) ?e ?ce)) HEADER_CE_TYPE
       = Some (AppendType (Ce example_config_no_version) @ ''..'' @ removeWhitespace (reason ?ce))"
    by blast
  then have "map_of (Header (newRequest ?g ?e ?ce)) HEADER_CE_TYPE
       = Some (AppendType (Ce example_config_no_version) @ ''..'' @ removeWhitespace (reason ?ce))"
    by (simp only: l)
  then have "map_of (Header (newRequest ?g ?e ?ce)) HEADER_CE_TYPE
       = Some ''com.example..FailedMountofvolume''"
    by (simp add: removeWhitespace_spaced_reason example_config_no_version_def)
  with h2 n t l r v show ?thesis by simp
qed

text \<open>
  C10 (as stated) fails. In a process where an exporter with the spec-version \<open>1.0\<close> was
  constructed before, the exporter with the empty spec-version is constructed with the tag
  \<open>v1\<close> in place, and its header is \<open>com.example.v1.Created\<close>. And with the tag empty, for
  the reason \<open>a\<close>, \<open>FF\<close>, \<open>b\<close>, which has no whitespace in it, the header ends with
  \<open>a\<close>, \<open>EF BF BD\<close>, \<open>b\<close>.
\<close>

theorem empty_spec_version_counterexample:
  "newExporter (\<lambda>c. None) example_config initial_globals = Inr (example_exporter, example_globals)
   \<and> SpecVersion (Ce example_config_no_version) = []
   \<and> newExporter (\<lambda>c. None) example_config_no_version example_globals
     = Inr (\<lparr>config = example_config_no_version, source = ''k8s-cluster''\<rparr>, example_globals)
   \<and> typeVersion example_globals = ''v1''
   \<and> map_of (Header (newRequest example_globals
                \<lparr>config = example_config_no_version, source = ''k8s-cluster''\<rparr>
                example_event)) HEADER_CE_TYPE
        = Some ''com.example.v1.Created''
   \<and> removeWhitespace invalid_reason = invalid_reason
   \<and> map_of (Header (newRequest
                \<lparr>filters = [''Created'', ''Deleted''], filterAllowAll = False, typeVersion = []\<rparr>
                \<lparr>config = example_config_no_version, source = ''k8s-cluster''\<rparr>
                (example_event\<lparr>reason := invalid_reason\<rparr>))) HEADER_CE_TYPE
        = Some (''com.example..a'' @ [CHR 0xEF, CHR 0xBF, CHR 0xBD] @ ''b'')"
proof -
  have n: "newExporter (\<lambda>c. None) example_config initial_globals = Inr (example_exporter, example_globals)"
    "SpecVersion (Ce example_config_no_version) = []"
    "newExporter (\<lambda>c. None) example_config_no_version example_globals
     = Inr (\<lparr>config = example_config_no_version, source = ''k8s-cluster''\<rparr>, example_globals)"
    "typeVersion example_globals = ''v1''"
    by (simp_all add: newExporter_def example_config_no_version_def example_config_def
        example_exporter_def example_globals_def initial_globals_def Let_def EncodeRune_def
        byte_eq_iff)
  have h: "map_of (Header (newRequest example_globals
                \<lparr>config = example_config_no_version, source = ''k8s-cluster''\<rparr>
                example_event)) HEADER_CE_TYPE
        = Some ''com.example.v1.Created''"
    by (simp add: header_Created[OF reason_example_event] example_globals_def
        example_config_no_version_def example_config_def)
  have i: "removeWhitespace invalid_reason = invalid_reason"
    "map_of (Header (newRequest
                \<lparr>filters = [''Created'', ''Deleted''], filterAllowAll = False, typeVersion = []\<rparr>
                \<lparr>config = example_config_no_version, source = ''k8s-cluster''\<rparr>
                (example_event\<lparr>reason := invalid_reason\<rparr>))) HEADER_CE_TYPE
        = Some (''com.example..a'' @ [CHR 0xEF, CHR 0xBF, CHR 0xBD] @ ''b'')"
    by (simp_all add: ce_type_of_request invalid_reason_def DecodeRune_def IsSpace_def
        EncodeRune_def RuneError_def cont_def byte_eq_iff example_config_no_version_def
        example_config_def)
  from n h i show ?thesis by simp
qed

end
